theory Spec2Isabelle
  imports Main "HOL-Library.AList" "HOL-Library.Char_ord" "HOL-Library.List_Lexorder"
begin

section \<open>Python values, exceptions and dictionaries\<close>

text \<open>
  The three scripts (\<^verbatim>\<open>trustindex_scraper.py\<close>, \<^verbatim>\<open>trustindex_scraper2.py\<close>,
  \<^verbatim>\<open>trustpilot_scraper.py\<close>) handle values that come out of \<^verbatim>\<open>json.loads\<close> and out of
  BeautifulSoup: \<^verbatim>\<open>None\<close>, booleans, integers, strings, lists and dictionaries with string
  keys. Floating point numbers are left out of the model. A dictionary is an association
  list in insertion order with pairwise different keys.
\<close>

datatype pyval =
    PNone
  | PBool bool
  | PInt int
  | PStr string
  | PList "pyval list"
  | PDict "(string \<times> pyval) list"

type_synonym pydict = "(string \<times> pyval) list"

text \<open>Every exception class the scripts can meet; each raise is a value \<open>Inl e\<close>.\<close>

datatype exn =
    AttributeError
  | KeyError
  | TypeError
  | ValueError
  | JSONDecodeError
  | RequestException
  | TimeoutException
  | NoSuchElementException
  | ElementClickInterceptedException
  | StaleElementReferenceException
  | WebDriverException
  | IllegalCharacterError
  | OSError

definition bind_exn :: "exn + 'a \<Rightarrow> ('a \<Rightarrow> exn + 'b) \<Rightarrow> exn + 'b" where
  "bind_exn m f = (case m of Inl e \<Rightarrow> Inl e | Inr x \<Rightarrow> f x)"

text \<open>\<^verbatim>\<open>d[k] = v\<close>, \<^verbatim>\<open>d.get(k, default)\<close>, \<^verbatim>\<open>d.pop(k, None)\<close> and \<^verbatim>\<open>d.keys()\<close> on a dictionary.\<close>

definition dict_set :: "string \<Rightarrow> pyval \<Rightarrow> pydict \<Rightarrow> pydict" where
  "dict_set k v d = AList.update k v d"

definition dict_get :: "pydict \<Rightarrow> string \<Rightarrow> pyval \<Rightarrow> pyval" where
  "dict_get d k dflt = (case map_of d k of None \<Rightarrow> dflt | Some v \<Rightarrow> v)"

definition dict_pop :: "string \<Rightarrow> pydict \<Rightarrow> pydict" where
  "dict_pop k d = AList.delete k d"

definition keys :: "pydict \<Rightarrow> string list" where
  "keys d = map fst d"

text \<open>
  \<^verbatim>\<open>x.get(k, default)\<close> on an arbitrary value: only a dictionary has the method, every
  other value raises \<^verbatim>\<open>AttributeError\<close>.
\<close>

fun py_get :: "pyval \<Rightarrow> string \<Rightarrow> pyval \<Rightarrow> exn + pyval" where
  "py_get (PDict d) k dflt = Inr (dict_get d k dflt)"
| "py_get _ k dflt = Inl AttributeError"

text \<open>
  \<^verbatim>\<open>x[k]\<close> with a string key: a missing key of a dictionary raises \<^verbatim>\<open>KeyError\<close>, and any
  value that is not a dictionary raises \<^verbatim>\<open>TypeError\<close> (not subscriptable, or indices must
  be integers).
\<close>

fun py_getitem :: "pyval \<Rightarrow> string \<Rightarrow> exn + pyval" where
  "py_getitem (PDict d) k = (case map_of d k of None \<Rightarrow> Inl KeyError | Some v \<Rightarrow> Inr v)"
| "py_getitem _ k = Inl TypeError"

text \<open>Truthiness, as tested by \<^verbatim>\<open>if x\<close> and \<^verbatim>\<open>if not x\<close>.\<close>

fun truthy :: "pyval \<Rightarrow> bool" where
  "truthy PNone = False"
| "truthy (PBool b) = b"
| "truthy (PInt i) = (i \<noteq> 0)"
| "truthy (PStr s) = (s \<noteq> [])"
| "truthy (PList xs) = (xs \<noteq> [])"
| "truthy (PDict d) = (d \<noteq> [])"

section \<open>Strings\<close>

text \<open>
  \<^verbatim>\<open>str.strip()\<close> removes leading and trailing whitespace. Among the code points below
  256 Python counts as whitespace: 9 to 13, 28 to 32, 133 and 160.
\<close>

definition is_space :: "char \<Rightarrow> bool" where
  "is_space c = (let n = of_char c :: nat in
     (9 \<le> n \<and> n \<le> 13) \<or> (28 \<le> n \<and> n \<le> 32) \<or> n = 133 \<or> n = 160)"

definition strip :: "string \<Rightarrow> string" where
  "strip s = rev (dropWhile is_space (rev (dropWhile is_space s)))"

text \<open>\<^verbatim>\<open>s.startswith(p)\<close>.\<close>

definition startswith :: "string \<Rightarrow> string \<Rightarrow> bool" where
  "startswith s p = (take (length p) s = p)"

text \<open>
  \<^verbatim>\<open>s.replace(old, new)\<close> for a non-empty \<open>old\<close>: every occurrence, left to right, without
  overlap. The counter is the number of characters of a matched occurrence still to skip.
\<close>

fun replace_from :: "string \<Rightarrow> string \<Rightarrow> nat \<Rightarrow> string \<Rightarrow> string" where
  "replace_from old new k [] = []"
| "replace_from old new (Suc k) (c # cs) = replace_from old new k cs"
| "replace_from old new 0 (c # cs) =
     (if startswith (c # cs) old then new @ replace_from old new (length old - 1) cs
      else c # replace_from old new 0 cs)"

definition replace :: "string \<Rightarrow> string \<Rightarrow> string \<Rightarrow> string" where
  "replace s old new = replace_from old new 0 s"

section \<open>Library functions taken as parameters\<close>

text \<open>
  The scripts call into \<^verbatim>\<open>datetime\<close>, \<^verbatim>\<open>html\<close> and BeautifulSoup. What these return is
  not code of the repository, so the model takes them as a record of functions; \<open>'dt\<close> is
  the type of a \<^verbatim>\<open>datetime\<close> object. A parser returns \<open>None\<close> where the library raises
  \<^verbatim>\<open>ValueError\<close>.
  \<^item> \<open>strptime_dot s\<close> is \<^verbatim>\<open>datetime.strptime(s, '%Y.%m.%d')\<close>;
  \<^item> \<open>fromisoformat s\<close> is \<^verbatim>\<open>datetime.fromisoformat(s)\<close>;
  \<^item> \<open>strftime_date d\<close> is \<^verbatim>\<open>d.strftime('%Y-%m-%d')\<close>;
  \<^item> \<open>strftime_datetime d\<close> is \<^verbatim>\<open>d.strftime('%Y-%m-%d %H:%M:%S')\<close>;
  \<^item> \<open>html_unescape s\<close> is \<^verbatim>\<open>html.unescape(s)\<close>;
  \<^item> \<open>soup_get_text s\<close> is \<^verbatim>\<open>BeautifulSoup(s, 'html.parser').get_text(separator='\n')\<close>.
\<close>

record 'dt pylib =
  strptime_dot :: "string \<Rightarrow> 'dt option"
  fromisoformat :: "string \<Rightarrow> 'dt option"
  strftime_date :: "'dt \<Rightarrow> string"
  strftime_datetime :: "'dt \<Rightarrow> string"
  html_unescape :: "string \<Rightarrow> string"
  soup_get_text :: "string \<Rightarrow> string"

definition or_ValueError :: "'a option \<Rightarrow> exn + 'a" where
  "or_ValueError r = (case r of None \<Rightarrow> Inl ValueError | Some x \<Rightarrow> Inr x)"

section \<open>A review element of the Trustindex page\<close>

text \<open>
  What the parsers read from one \<^verbatim>\<open>div.review\<close> element of the BeautifulSoup tree:
  \<^item> \<open>data_id\<close>: \<^verbatim>\<open>review_div.get('data-id')\<close>, \<open>None\<close> when the attribute is absent;
  \<^item> \<open>ti_name\<close>, \<open>ti_date\<close>: the \<^verbatim>\<open>.text\<close> of \<^verbatim>\<open>review_div.find('div', class_=...)\<close>, \<open>None\<close>
    when \<^verbatim>\<open>find\<close> returns \<^verbatim>\<open>None\<close>;
  \<^item> \<open>ti_stars\<close>: the number of \<^verbatim>\<open>span\<close> elements of class \<^verbatim>\<open>ti-star f\<close> in the
    \<^verbatim>\<open>ti-stars\<close> container, \<open>None\<close> when there is no container;
  \<^item> \<open>ti_review_content\<close>: the \<^verbatim>\<open>.text\<close> of the \<^verbatim>\<open>ti-review-content\<close> element once every
    \<^verbatim>\<open>br\<close> in it is replaced by a newline, \<open>None\<close> when there is no such element;
  \<^item> \<open>class_attr\<close>: the list of classes of the element, \<open>None\<close> when it has no
    \<^verbatim>\<open>class\<close> attribute.
\<close>

record review_div =
  data_id :: "string option"
  ti_name :: "string option"
  ti_date :: "string option"
  ti_stars :: "nat option"
  ti_review_content :: "string option"
  class_attr :: "string list option"

text \<open>\<^verbatim>\<open>x.text\<close> where \<open>x\<close> is the result of \<^verbatim>\<open>find\<close>: \<^verbatim>\<open>None\<close> has no attribute \<^verbatim>\<open>text\<close>.\<close>

definition text_of :: "string option \<Rightarrow> exn + string" where
  "text_of found = (case found of None \<Rightarrow> Inl AttributeError | Some t \<Rightarrow> Inr t)"

text \<open>
  \<^verbatim>\<open>len(x.find_all(...))\<close> where \<open>x\<close> is the result of \<^verbatim>\<open>find\<close>: \<^verbatim>\<open>None\<close> has no
  attribute \<^verbatim>\<open>find_all\<close>.
\<close>

definition len_find_all :: "nat option \<Rightarrow> exn + nat" where
  "len_find_all found = (case found of None \<Rightarrow> Inl AttributeError | Some n \<Rightarrow> Inr n)"

text \<open>\<^verbatim>\<open>next((s.replace('source-', '') for s in cs if s.startswith('source-')), 'Unknown')\<close>.\<close>

definition source_of_classes :: "string list \<Rightarrow> string" where
  "source_of_classes cs =
     (case filter (\<lambda>s. startswith s ''source-'') cs of
        [] \<Rightarrow> ''Unknown''
      | s # _ \<Rightarrow> replace s ''source-'' [])"

definition opt_str :: "string option \<Rightarrow> pyval" where
  "opt_str x = (case x of None \<Rightarrow> PNone | Some s \<Rightarrow> PStr s)"

text \<open>
  A \<^verbatim>\<open>try\<close> block that computes a value, with an \<^verbatim>\<open>except\<close> clause for the classes in
  \<open>caught\<close> that gives \<open>dflt\<close> instead; any other exception goes on to the caller.
\<close>

definition try_value :: "exn + pyval \<Rightarrow> exn set \<Rightarrow> pyval \<Rightarrow> exn + pyval" where
  "try_value body caught dflt =
     (case body of
        Inr v \<Rightarrow> Inr v
      | Inl e \<Rightarrow> if e \<in> caught then Inr dflt else Inl e)"

subsection \<open>\<^verbatim>\<open>parse_review_div\<close> of \<^verbatim>\<open>trustindex_scraper.py\<close>\<close>

definition parse_review_div :: "review_div \<Rightarrow> exn + pydict" where
  "parse_review_div review_div =
     bind_exn (try_value
        (bind_exn (text_of (ti_name review_div)) (\<lambda>t. Inr (PStr (strip t))))
        {AttributeError} PNone) (\<lambda>author.
     bind_exn (try_value
        (bind_exn (text_of (ti_date review_div)) (\<lambda>t. Inr (PStr (strip t))))
        {AttributeError} PNone) (\<lambda>date.
     bind_exn (try_value
        (bind_exn (len_find_all (ti_stars review_div)) (\<lambda>n. Inr (PInt (int n))))
        {AttributeError} PNone) (\<lambda>rating.
     bind_exn (try_value
        (bind_exn (text_of (ti_review_content review_div)) (\<lambda>t. Inr (PStr (strip t))))
        {AttributeError} PNone) (\<lambda>body.
     bind_exn (try_value
        (case class_attr review_div of
           None \<Rightarrow> Inl KeyError
         | Some source_class \<Rightarrow> Inr (PStr (source_of_classes source_class)))
        {AttributeError, KeyError} (PStr ''Unknown'')) (\<lambda>source.
     Inr [(''review_id'', opt_str (data_id review_div)),
          (''author'', author),
          (''date'', date),
          (''rating'', rating),
          (''body'', body),
          (''source_platform'', source)])))))"

subsection \<open>\<^verbatim>\<open>parse_review_div\<close> of \<^verbatim>\<open>trustindex_scraper2.py\<close>\<close>

text \<open>
  The second script returns \<^verbatim>\<open>None\<close> for an element without a (non-empty) \<^verbatim>\<open>data-id\<close>,
  reformats the date and unescapes the body. The \<^verbatim>\<open>try\<close> blocks for the rating and for
  the source platform catch \<^verbatim>\<open>Exception\<close>, that is every class.
\<close>

definition parse_date2 :: "('dt, 'x) pylib_scheme \<Rightarrow> string \<Rightarrow> exn + pyval" where
  "parse_date2 lib date_str =
     try_value
       (bind_exn (or_ValueError (strptime_dot lib date_str)) (\<lambda>dt_obj.
          Inr (PStr (strftime_date lib dt_obj))))
       {ValueError} (PStr date_str)"

definition parse_review_div2 :: "('dt, 'x) pylib_scheme \<Rightarrow> review_div \<Rightarrow> exn + pydict option" where
  "parse_review_div2 lib review_div =
     (let review_id = opt_str (data_id review_div) in
      if \<not> truthy review_id then Inr None
      else
        let review_data = dict_set ''review_id'' review_id [] in
        bind_exn (try_value
           (bind_exn (text_of (ti_name review_div)) (\<lambda>t. Inr (PStr (strip t))))
           {AttributeError} PNone) (\<lambda>author.
        let review_data = dict_set ''author'' author review_data in
        bind_exn (try_value
           (bind_exn (text_of (ti_date review_div)) (\<lambda>t. parse_date2 lib (strip t)))
           {AttributeError} PNone) (\<lambda>date.
        let review_data = dict_set ''date'' date review_data in
        bind_exn (try_value
           (case ti_stars review_div of
              Some n \<Rightarrow> Inr (PInt (int n))
            | None \<Rightarrow> Inr PNone)
           UNIV PNone) (\<lambda>rating.
        let review_data = dict_set ''rating'' rating review_data in
        bind_exn (try_value
           (case ti_review_content review_div of
              Some t \<Rightarrow> Inr (PStr (html_unescape lib (strip t)))
            | None \<Rightarrow> Inr PNone)
           {AttributeError} PNone) (\<lambda>body.
        let review_data = dict_set ''body'' body review_data in
        bind_exn (try_value
           (let source_class = (case class_attr review_div of None \<Rightarrow> [] | Some cs \<Rightarrow> cs)
            in Inr (PStr (source_of_classes source_class)))
           UNIV (PStr ''Unknown'')) (\<lambda>source.
        let review_data = dict_set ''source_platform'' source review_data in
        Inr (Some review_data)))))))"

section \<open>A review object of the Trustpilot payload\<close>

text \<open>
  \<^verbatim>\<open>v.replace(old, new)\<close> on an arbitrary value: only a string has the method here, so
  \<^verbatim>\<open>None\<close>, a number, a list or a dictionary raise \<^verbatim>\<open>AttributeError\<close>.
\<close>

fun py_replace :: "pyval \<Rightarrow> string \<Rightarrow> string \<Rightarrow> exn + string" where
  "py_replace (PStr s) old new = Inr (replace s old new)"
| "py_replace _ old new = Inl AttributeError"

text \<open>
  The two date blocks of \<^verbatim>\<open>parse_trustpilot_review_data\<close>: the \<^verbatim>\<open>except\<close> clause is for
  \<^verbatim>\<open>ValueError\<close> and \<^verbatim>\<open>TypeError\<close> and stores the value as it came.
\<close>

definition parse_iso_date ::
  "('dt, 'x) pylib_scheme \<Rightarrow> ('dt \<Rightarrow> string) \<Rightarrow> pyval \<Rightarrow> exn + pyval" where
  "parse_iso_date lib fmt date_str =
     try_value
       (bind_exn (py_replace date_str ''Z'' ''+00:00'') (\<lambda>s.
        bind_exn (or_ValueError (fromisoformat lib s)) (\<lambda>dt_obj.
          Inr (PStr (fmt dt_obj)))))
       {ValueError, TypeError} date_str"

definition parse_trustpilot_review_data ::
  "('dt, 'x) pylib_scheme \<Rightarrow> pyval \<Rightarrow> exn + pydict" where
  "parse_trustpilot_review_data lib review_json =
     bind_exn (py_get review_json ''id'' PNone) (\<lambda>rid.
     let review_data = dict_set ''id'' rid [] in
     bind_exn (py_get review_json ''consumer'' (PDict [])) (\<lambda>consumer.
     bind_exn (py_get consumer ''displayName'' PNone) (\<lambda>author.
     let review_data = dict_set ''author'' author review_data in
     bind_exn (py_get consumer ''id'' PNone) (\<lambda>consumer_id.
     let review_data = dict_set ''consumer_id'' consumer_id review_data in
     bind_exn (py_get consumer ''numberOfReviews'' PNone) (\<lambda>reviews_count.
     let review_data = dict_set ''consumer_reviews_count'' reviews_count review_data in
     bind_exn (py_get consumer ''countryCode'' PNone) (\<lambda>country.
     let review_data = dict_set ''consumer_country'' country review_data in
     bind_exn (py_get review_json ''dates'' (PDict [])) (\<lambda>dates.
     bind_exn (py_get dates ''publishedDate'' PNone) (\<lambda>published_date_str.
     bind_exn (py_get dates ''experiencedDate'' PNone) (\<lambda>experienced_date_str.
     bind_exn (parse_iso_date lib (strftime_datetime lib) published_date_str) (\<lambda>date_published.
     let review_data = dict_set ''date_published'' date_published review_data in
     bind_exn (parse_iso_date lib (strftime_date lib) experienced_date_str) (\<lambda>date_experience.
     let review_data = dict_set ''date_experience'' date_experience review_data in
     bind_exn (py_get review_json ''rating'' PNone) (\<lambda>rating.
     let review_data = dict_set ''rating'' rating review_data in
     bind_exn (py_get review_json ''title'' PNone) (\<lambda>title.
     let review_data = dict_set ''title'' title review_data in
     bind_exn (py_get review_json ''text'' (PStr [])) (\<lambda>raw_body.
     bind_exn (py_replace raw_body ''<br />'' [CHR 0x0A]) (\<lambda>s1.
     let markup = replace s1 ''<br>'' [CHR 0x0A];
         body = html_unescape lib (strip (soup_get_text lib markup));
         review_data = dict_set ''body'' (PStr body) review_data in
     bind_exn (py_get review_json ''language'' PNone) (\<lambda>language.
     let review_data = dict_set ''language'' language review_data in
     bind_exn (py_get review_json ''likes'' (PInt 0)) (\<lambda>likes.
     let review_data = dict_set ''likes'' likes review_data in
     bind_exn (py_get review_json ''labels'' (PDict [])) (\<lambda>labels.
     bind_exn (py_get labels ''verification'' (PDict [])) (\<lambda>verification_info.
     bind_exn (py_get verification_info ''isVerified'' (PBool False)) (\<lambda>is_verified.
     let review_data = dict_set ''is_verified'' is_verified review_data in
     bind_exn (py_get verification_info ''reviewSourceName'' (PStr ''Unknown'')) (\<lambda>src.
     let review_data = dict_set ''verification_source'' src review_data in
     Inr review_data)))))))))))))))))))))"

section \<open>Deduplication\<close>

text \<open>
  Membership in a Python set hashes the value: a list or a dictionary raises
  \<^verbatim>\<open>TypeError\<close>, and \<^verbatim>\<open>True\<close> and \<^verbatim>\<open>False\<close> are the same set elements as \<^verbatim>\<open>1\<close> and \<^verbatim>\<open>0\<close>. The
  set holds the values in this normal form.
\<close>

fun hash_key :: "pyval \<Rightarrow> exn + pyval" where
  "hash_key (PBool b) = Inr (PInt (if b then 1 else 0))"
| "hash_key (PList xs) = Inl TypeError"
| "hash_key (PDict d) = Inl TypeError"
| "hash_key v = Inr v"

text \<open>
  The state of an extraction run: the two variables of the source, \<open>all_reviews_data\<close> and
  the set of identifiers seen (\<^verbatim>\<open>extracted_review_ids\<close>, \<^verbatim>\<open>processed_review_ids\<close>), and two
  history variables that record what the run did: every parsed record in the order it
  reached the duplicate test, and every request made (the loop counter of a click
  iteration of the Trustindex scripts, the page number of a Trustpilot request).
\<close>

record scrape_state =
  all_reviews_data :: "pydict list"
  seen_ids :: "pyval set"
  parsed_log :: "pydict list"
  request_log :: "nat list"

definition init_state :: scrape_state where
  "init_state = \<lparr>all_reviews_data = [], seen_ids = {}, parsed_log = [], request_log = []\<rparr>"

text \<open>
  The test of the Trustindex scripts,
  \<^verbatim>\<open>review_data and review_data['review_id'] and review_data['review_id'] not in extracted_review_ids\<close>,
  and the one of the Trustpilot script,
  \<^verbatim>\<open>review_data and review_data['id'] not in processed_review_ids\<close>. The result is the
  identifier to add when the test holds.
\<close>

definition new_review_id :: "pydict option \<Rightarrow> pyval set \<Rightarrow> exn + pyval option" where
  "new_review_id review_data seen =
     (case review_data of
        None \<Rightarrow> Inr None
      | Some rd \<Rightarrow>
          if rd = [] then Inr None
          else bind_exn (py_getitem (PDict rd) ''review_id'') (\<lambda>rid.
               if \<not> truthy rid then Inr None
               else bind_exn (hash_key rid) (\<lambda>k.
                    Inr (if k \<notin> seen then Some k else None))))"

definition new_trustpilot_id :: "pydict option \<Rightarrow> pyval set \<Rightarrow> exn + pyval option" where
  "new_trustpilot_id review_data seen =
     (case review_data of
        None \<Rightarrow> Inr None
      | Some rd \<Rightarrow>
          if rd = [] then Inr None
          else bind_exn (py_getitem (PDict rd) ''id'') (\<lambda>rid.
               bind_exn (hash_key rid) (\<lambda>k.
                    Inr (if k \<notin> seen then Some k else None))))"

text \<open>
  The \<^verbatim>\<open>for\<close> loop over the elements of one page: parse, test, append and count. It is the
  same in the three scripts up to the parser and the test. An exception leaves the loop
  with the records appended so far still in the list.
\<close>

fun extract_loop ::
  "('e \<Rightarrow> exn + pydict option) \<Rightarrow> (pydict option \<Rightarrow> pyval set \<Rightarrow> exn + pyval option) \<Rightarrow>
   'e list \<Rightarrow> 'z scrape_state_scheme \<Rightarrow> nat \<Rightarrow> 'z scrape_state_scheme \<times> nat \<times> exn option" where
  "extract_loop parse test [] st n = (st, n, None)"
| "extract_loop parse test (x # xs) st n =
     (case parse x of
        Inl e \<Rightarrow> (st, n, Some e)
      | Inr review_data \<Rightarrow>
          let parsed = (case review_data of None \<Rightarrow> [] | Some rd \<Rightarrow> [rd]);
              st = st\<lparr>parsed_log := parsed_log st @ parsed\<rparr>
          in (case test review_data (seen_ids st) of
                Inl e \<Rightarrow> (st, n, Some e)
              | Inr None \<Rightarrow> extract_loop parse test xs st n
              | Inr (Some k) \<Rightarrow>
                  extract_loop parse test xs
                    (st\<lparr>all_reviews_data := all_reviews_data st @ parsed,
                        seen_ids := insert k (seen_ids st)\<rparr>)
                    (n + 1)))"

section \<open>The browser as the Trustindex scripts see it\<close>

text \<open>
  The browser and the page are not code of the repository: a run is given what each call
  into Selenium does. \<open>None\<close> is a call that returns, \<open>Some e\<close> one that raises \<open>e\<close>;
  \<open>Inl e\<close> likewise, and \<open>Inr\<close> carries the value returned.
\<close>

definition step :: "exn option \<Rightarrow> exn + unit" where
  "step r = (case r of None \<Rightarrow> Inr () | Some e \<Rightarrow> Inl e)"

subsection \<open>\<^verbatim>\<open>extract_reviews_selenium\<close> of \<^verbatim>\<open>trustindex_scraper.py\<close>\<close>

text \<open>
  One iteration of the \<^verbatim>\<open>while\<close> loop:
  \<^item> \<open>wait_clickable\<close>: \<^verbatim>\<open>WebDriverWait(driver, 15).until(EC.element_to_be_clickable(...))\<close>;
  \<^item> \<open>scroll\<close>: the \<^verbatim>\<open>scrollIntoView\<close> script;
  \<^item> \<open>direct_click\<close>: \<^verbatim>\<open>more_button.click()\<close>;
  \<^item> \<open>wait_presence\<close> and \<open>js_click\<close>: the fallback after an intercepted or stale click;
  \<^item> \<open>page_after\<close>: \<^verbatim>\<open>driver.page_source\<close> parsed, then \<^verbatim>\<open>find_all('div', class_='review')\<close>.
\<close>

record click1 =
  wait_clickable :: "exn option"
  scroll :: "exn option"
  direct_click :: "exn option"
  wait_presence :: "exn option"
  js_click :: "exn option"
  page_after :: "exn + review_div list"

text \<open>
  A run: \<open>chrome_start\<close> is \<^verbatim>\<open>webdriver.Chrome(...)\<close>, \<open>get_url\<close> is \<^verbatim>\<open>driver.get(url)\<close>,
  \<open>initial_page\<close> the review elements of the first page source, \<open>click_at i\<close> the
  iteration entered with \<^verbatim>\<open>loop_count == i\<close>, and \<open>driver_quit\<close> the call \<^verbatim>\<open>driver.quit()\<close> of
  the \<^verbatim>\<open>finally\<close> clause.
\<close>

record browser1 =
  chrome_start :: "exn option"
  get_url :: "exn option"
  initial_page :: "exn + review_div list"
  click_at :: "nat \<Rightarrow> click1"
  driver_quit :: "exn option"

text \<open>The body of the inner \<^verbatim>\<open>try\<close> up to the new page source.\<close>

definition click_and_load :: "click1 \<Rightarrow> exn + review_div list" where
  "click_and_load c =
     bind_exn (step (wait_clickable c)) (\<lambda>_.
     bind_exn (step (scroll c)) (\<lambda>_.
     bind_exn
       (case direct_click c of
          None \<Rightarrow> Inr ()
        | Some e \<Rightarrow>
            if e \<in> {ElementClickInterceptedException, StaleElementReferenceException}
            then bind_exn (step (wait_presence c)) (\<lambda>_. step (js_click c))
            else Inl e) (\<lambda>_.
     page_after c)))"

definition parse1 :: "review_div \<Rightarrow> exn + pydict option" where
  "parse1 d = bind_exn (parse_review_div d) (\<lambda>review_data. Inr (Some review_data))"

text \<open>
  The \<^verbatim>\<open>while loop_count < max_loops\<close> loop. Its three \<^verbatim>\<open>except\<close> clauses
  (\<^verbatim>\<open>TimeoutException\<close>, \<^verbatim>\<open>NoSuchElementException\<close>, \<^verbatim>\<open>Exception\<close>) all \<^verbatim>\<open>break\<close>.
\<close>

function click_loop :: "(nat \<Rightarrow> click1) \<Rightarrow> int \<Rightarrow> nat \<Rightarrow> scrape_state \<Rightarrow> scrape_state" where
  "click_loop clicks max_loops loop_count st =
     (if int loop_count < max_loops then
        let st = st\<lparr>request_log := request_log st @ [loop_count]\<rparr> in
        (case click_and_load (clicks loop_count) of
           Inl e \<Rightarrow> st
         | Inr review_divs \<Rightarrow>
             (case extract_loop parse1 new_review_id review_divs st 0 of
                (st, newly_loaded_reviews, Some e) \<Rightarrow> st
              | (st, newly_loaded_reviews, None) \<Rightarrow>
                  if newly_loaded_reviews = 0 then st
                  else click_loop clicks max_loops (loop_count + 1) st))
      else st)"
  by pat_completeness auto
termination
  by (relation "measure (\<lambda>(clicks, max_loops, loop_count, st). nat (max_loops - int loop_count))")
     auto

declare click_loop.simps [simp del]

text \<open>
  The outer \<^verbatim>\<open>try\<close>: start the browser, extract from the first page, run the loop. Its
  \<^verbatim>\<open>except Exception\<close> clause only prints; the list keeps what was appended.
\<close>

definition run_selenium :: "browser1 \<Rightarrow> int \<Rightarrow> scrape_state" where
  "run_selenium env max_loops =
     (case bind_exn (step (chrome_start env)) (\<lambda>_. step (get_url env)) of
        Inl e \<Rightarrow> init_state
      | Inr _ \<Rightarrow>
         (case initial_page env of
            Inl e \<Rightarrow> init_state
          | Inr review_divs \<Rightarrow>
             (case extract_loop parse1 new_review_id review_divs init_state 0 of
                (st, n, Some e) \<Rightarrow> st
              | (st, n, None) \<Rightarrow> click_loop (click_at env) max_loops 0 st)))"

text \<open>
  The \<^verbatim>\<open>finally\<close> clause calls \<^verbatim>\<open>driver.quit()\<close> when the driver exists, that is when
  \<^verbatim>\<open>webdriver.Chrome(...)\<close> has returned. It is outside every \<^verbatim>\<open>except\<close> clause: an exception
  of \<^verbatim>\<open>driver.quit()\<close> leaves the function. Otherwise the function removes \<^verbatim>\<open>review_id\<close>
  from every record and returns the list.
\<close>

definition finally_quit :: "exn option \<Rightarrow> exn option \<Rightarrow> exn + unit" where
  "finally_quit started quit = (case started of Some e \<Rightarrow> Inr () | None \<Rightarrow> step quit)"

definition extract_reviews_selenium :: "browser1 \<Rightarrow> int \<Rightarrow> exn + pydict list" where
  "extract_reviews_selenium env max_loops =
     (let st = run_selenium env max_loops in
      bind_exn (finally_quit (chrome_start env) (driver_quit env)) (\<lambda>_.
      Inr (map (dict_pop ''review_id'') (all_reviews_data st))))"

subsection \<open>\<^verbatim>\<open>extract_reviews_selenium\<close> of \<^verbatim>\<open>trustindex_scraper2.py\<close>\<close>

text \<open>
  One iteration of the loop of the second script:
  \<^item> \<open>count_before\<close>: \<^verbatim>\<open>len(driver.find_elements(...))\<close> before the inner \<^verbatim>\<open>try\<close>;
  \<^item> \<open>wait_presence2\<close>, \<open>scroll2\<close>, \<open>wait_clickable2\<close>: steps 1 to 3 (an exception of the
    scroll is caught by its own \<^verbatim>\<open>except Exception\<close> and the iteration goes on, so the loop
    never looks at \<open>scroll2\<close>);
  \<^item> \<open>find_button\<close>: \<^verbatim>\<open>driver.find_element(*more_button_locator)\<close> after a timeout of step 3;
  \<^item> \<open>direct_click2\<close>, \<open>js_click2\<close>: step 4 and its fallback (wait and script together);
  \<^item> \<open>wait_increase\<close>, \<open>count_after\<close>, \<open>stabilize\<close>: step 5;
  \<^item> \<open>button_displayed\<close>: \<^verbatim>\<open>driver.find_element(...).is_displayed()\<close> after a timeout of
    \<open>wait_increase\<close>;
  \<^item> \<open>page_source2\<close>: \<^verbatim>\<open>driver.page_source\<close>; \<open>soup_select\<close>: what BeautifulSoup makes of
    it inside \<^verbatim>\<open>get_review_divs_from_source\<close>.
\<close>

record click2 =
  count_before :: "exn + nat"
  wait_presence2 :: "exn option"
  scroll2 :: "exn option"
  wait_clickable2 :: "exn option"
  find_button :: "exn option"
  direct_click2 :: "exn option"
  js_click2 :: "exn option"
  wait_increase :: "exn option"
  count_after :: "exn + nat"
  stabilize :: "exn option"
  button_displayed :: "exn + bool"
  page_source2 :: "exn option"
  soup_select :: "exn + review_div list"

text \<open>
  A run of the second script: \<^verbatim>\<open>webdriver.Chrome(...)\<close>, \<^verbatim>\<open>driver.get(url)\<close>, the first
  \<^verbatim>\<open>driver.page_source\<close> and what BeautifulSoup makes of it, the iterations, and
  \<^verbatim>\<open>driver.quit()\<close>.
\<close>

record browser2 =
  chrome_start2 :: "exn option"
  get_url2 :: "exn option"
  initial_source2 :: "exn option"
  initial_select2 :: "exn + review_div list"
  click_at2 :: "nat \<Rightarrow> click2"
  driver_quit2 :: "exn option"

text \<open>\<^verbatim>\<open>get_review_divs_from_source\<close>: any exception of the parser gives the empty list.\<close>

definition get_review_divs_from_source :: "exn + review_div list \<Rightarrow> review_div list" where
  "get_review_divs_from_source parsed = (case parsed of Inl e \<Rightarrow> [] | Inr divs \<Rightarrow> divs)"

text \<open>
  Steps 1 to 5 of the inner \<^verbatim>\<open>try\<close> and the page source of step 6. \<open>Inr None\<close> is a
  \<^verbatim>\<open>break\<close> taken inside the steps, \<open>Inl e\<close> an exception that reaches the \<^verbatim>\<open>except\<close> clauses
  of the loop.
\<close>

definition click_and_load2 :: "click2 \<Rightarrow> exn + review_div list option" where
  "click_and_load2 c =
     (case wait_presence2 c of
        Some TimeoutException \<Rightarrow> Inr None
      | Some e \<Rightarrow> Inl e
      | None \<Rightarrow>
     bind_exn
       (case wait_clickable2 c of
          Some TimeoutException \<Rightarrow> step (find_button c)
        | Some e \<Rightarrow> Inl e
        | None \<Rightarrow> Inr ()) (\<lambda>_.
     (case
        (case direct_click2 c of
           None \<Rightarrow> Inr True
         | Some e \<Rightarrow>
             if e \<in> {ElementClickInterceptedException, StaleElementReferenceException}
             then (case js_click2 c of Some js_e \<Rightarrow> Inr False | None \<Rightarrow> Inr True)
             else Inl e)
      of
        Inl e \<Rightarrow> Inl e
      | Inr False \<Rightarrow> Inr None
      | Inr True \<Rightarrow>
     (case wait_increase c of
        Some TimeoutException \<Rightarrow>
          (case button_displayed c of
             Inl NoSuchElementException \<Rightarrow> Inr None
           | Inl e \<Rightarrow> Inl e
           | Inr shown \<Rightarrow> Inr None)
      | Some e \<Rightarrow> Inl e
      | None \<Rightarrow>
     bind_exn (count_after c) (\<lambda>new_review_dom_count.
     bind_exn
       (case stabilize c of
          Some TimeoutException \<Rightarrow> Inr ()
        | Some e \<Rightarrow> Inl e
        | None \<Rightarrow> Inr ()) (\<lambda>_.
     bind_exn (step (page_source2 c)) (\<lambda>_.
     Inr (Some (get_review_divs_from_source (soup_select c))))))))))"

text \<open>
  The loop. An exception of \<open>count_before\<close> is raised outside the inner \<^verbatim>\<open>try\<close> and ends
  the outer one; for the list that is the same as a \<^verbatim>\<open>break\<close>.
\<close>

function click_loop2 ::
  "('dt, 'x) pylib_scheme \<Rightarrow> (nat \<Rightarrow> click2) \<Rightarrow> int \<Rightarrow> nat \<Rightarrow> nat \<Rightarrow> scrape_state \<Rightarrow> scrape_state" where
  "click_loop2 lib clicks max_loops loop_count last_known_review_id_count st =
     (if int loop_count < max_loops then
        let st = st\<lparr>request_log := request_log st @ [loop_count]\<rparr> in
        (case count_before (clicks loop_count) of
           Inl e \<Rightarrow> st
         | Inr num_reviews_before_click \<Rightarrow>
        (case click_and_load2 (clicks loop_count) of
           Inl e \<Rightarrow> st
         | Inr None \<Rightarrow> st
         | Inr (Some current_divs) \<Rightarrow>
             (case extract_loop (parse_review_div2 lib) new_review_id current_divs st 0 of
                (st, newly_loaded_reviews_in_loop, Some e) \<Rightarrow> st
              | (st, newly_loaded_reviews_in_loop, None) \<Rightarrow>
                  let current_unique_count = card (seen_ids st) in
                  if current_unique_count = last_known_review_id_count then st
                  else click_loop2 lib clicks max_loops (loop_count + 1) current_unique_count st)))
      else st)"
  by pat_completeness auto
termination
  by (relation "measure (\<lambda>(lib, clicks, max_loops, loop_count, last, st).
        nat (max_loops - int loop_count))") auto

declare click_loop2.simps [simp del]

definition run_selenium2 :: "('dt, 'x) pylib_scheme \<Rightarrow> browser2 \<Rightarrow> int \<Rightarrow> scrape_state" where
  "run_selenium2 lib env max_loops =
     (case bind_exn (step (chrome_start2 env)) (\<lambda>_. step (get_url2 env)) of
        Inl e \<Rightarrow> init_state
      | Inr _ \<Rightarrow>
         (case step (initial_source2 env) of
            Inl e \<Rightarrow> init_state
          | Inr _ \<Rightarrow>
             (case extract_loop (parse_review_div2 lib) new_review_id
                     (get_review_divs_from_source (initial_select2 env)) init_state 0 of
                (st, initial_count, Some e) \<Rightarrow> st
              | (st, initial_count, None) \<Rightarrow>
                  click_loop2 lib (click_at2 env) max_loops 0 (card (seen_ids st)) st)))"

definition extract_reviews_selenium2 ::
  "('dt, 'x) pylib_scheme \<Rightarrow> browser2 \<Rightarrow> int \<Rightarrow> exn + pydict list" where
  "extract_reviews_selenium2 lib env max_loops =
     (let st = run_selenium2 lib env max_loops in
      bind_exn (finally_quit (chrome_start2 env) (driver_quit2 env)) (\<lambda>_.
      Inr (map (dict_pop ''review_id'') (all_reviews_data st))))"

section \<open>\<^verbatim>\<open>extract_trustpilot_reviews\<close>\<close>

text \<open>
  What a request for one page gives:
  \<^item> \<open>RequestFailed\<close>: \<^verbatim>\<open>requests.get\<close> or \<^verbatim>\<open>raise_for_status\<close> raises a
    \<^verbatim>\<open>RequestException\<close>;
  \<^item> \<open>ParseFailed e\<close>: BeautifulSoup or \<^verbatim>\<open>json.loads\<close> raises \<open>e\<close>;
  \<^item> \<open>NoNextData\<close>: the page has no \<^verbatim>\<open>__NEXT_DATA__\<close> script tag;
  \<^item> \<open>NextData page_data\<close>: the decoded payload.
\<close>

datatype page_response =
    RequestFailed
  | ParseFailed exn
  | NoNextData
  | NextData pyval

text \<open>A Python integer read from a value: a boolean counts as 0 or 1.\<close>

fun as_int :: "pyval \<Rightarrow> int option" where
  "as_int (PInt i) = Some i"
| "as_int (PBool b) = Some (if b then 1 else 0)"
| "as_int _ = None"

text \<open>
  \<^verbatim>\<open>min(total_pages, max_pages)\<close>: the second argument when it is smaller, else the first;
  comparing an integer with a value that is not a number raises \<^verbatim>\<open>TypeError\<close>.
\<close>

definition py_min :: "pyval \<Rightarrow> int \<Rightarrow> exn + pyval" where
  "py_min a b =
     (case as_int a of
        None \<Rightarrow> Inl TypeError
      | Some i \<Rightarrow> Inr (if b < i then PInt b else a))"

text \<open>\<^verbatim>\<open>current_page >= total_pages\<close>.\<close>

definition py_ge :: "int \<Rightarrow> pyval \<Rightarrow> exn + bool" where
  "py_ge a b = (case as_int b of None \<Rightarrow> Inl TypeError | Some i \<Rightarrow> Inr (a \<ge> i))"

text \<open>
  \<^verbatim>\<open>for x in v\<close>: the elements of a list, the keys of a dictionary, the characters of a
  string; anything else is not iterable.
\<close>

fun py_iter :: "pyval \<Rightarrow> exn + pyval list" where
  "py_iter (PList xs) = Inr xs"
| "py_iter (PDict d) = Inr (map (\<lambda>(k, v). PStr k) d)"
| "py_iter (PStr s) = Inr (map (\<lambda>c. PStr [c]) s)"
| "py_iter _ = Inl TypeError"

text \<open>
  The block run on the first page only. It assigns \<open>total_pages\<close> before \<^verbatim>\<open>min\<close> is
  called, so a \<^verbatim>\<open>TypeError\<close> of \<^verbatim>\<open>min\<close> leaves the value read from the payload in
  \<open>total_pages\<close>. The result is the pair \<open>(total_pages, max_pages)\<close>.
\<close>

definition lookup_total_pages :: "pyval \<Rightarrow> exn + pyval" where
  "lookup_total_pages page_data =
     bind_exn (py_getitem page_data ''props'') (\<lambda>props.
     bind_exn (py_getitem props ''pageProps'') (\<lambda>page_props.
     bind_exn (py_getitem page_props ''filters'') (\<lambda>filters.
     bind_exn (py_getitem filters ''pagination'') (\<lambda>pagination.
     py_getitem pagination ''totalPages''))))"

definition first_page_limits :: "pyval \<Rightarrow> pyval \<Rightarrow> int \<Rightarrow> exn + pyval \<times> int" where
  "first_page_limits page_data total_pages max_pages =
     (case lookup_total_pages page_data of
        Inl e \<Rightarrow>
          if e \<in> {KeyError, TypeError}
          then Inr (total_pages, if max_pages = 0 then 1000 else max_pages)
          else Inl e
      | Inr found \<Rightarrow>
          if max_pages > 0 then
            (case py_min found max_pages of
               Inl e \<Rightarrow>
                 if e \<in> {KeyError, TypeError}
                 then Inr (found, if max_pages = 0 then 1000 else max_pages)
                 else Inl e
             | Inr limited \<Rightarrow> Inr (limited, max_pages))
          else Inr (found, max_pages))"

definition reviews_of_page :: "pyval \<Rightarrow> exn + pyval" where
  "reviews_of_page page_data =
     bind_exn (py_get page_data ''props'' (PDict [])) (\<lambda>props.
     bind_exn (py_get props ''pageProps'' (PDict [])) (\<lambda>page_props.
     py_get page_props ''reviews'' (PList [])))"

definition parse_pilot :: "('dt, 'x) pylib_scheme \<Rightarrow> pyval \<Rightarrow> exn + pydict option" where
  "parse_pilot lib review_json =
     bind_exn (parse_trustpilot_review_data lib review_json) (\<lambda>review_data.
       Inr (Some review_data))"

text \<open>
  The state of the \<^verbatim>\<open>while True\<close> loop: the extraction state and the three local variables
  \<open>current_page\<close>, \<open>total_pages\<close> and \<open>max_pages\<close>.
\<close>

record pilot_state = scrape_state +
  current_page :: nat
  total_pages :: pyval
  max_pages :: int

text \<open>
  The second \<^verbatim>\<open>try\<close> block for a decoded payload. The result says whether the loop goes
  on (\<open>True\<close>) or leaves by a \<^verbatim>\<open>break\<close> (\<open>False\<close>); both \<^verbatim>\<open>except\<close> clauses \<^verbatim>\<open>break\<close>, so an
  exception gives \<open>False\<close> with the state as it is when the exception is raised.
\<close>

definition process_page ::
  "('dt, 'x) pylib_scheme \<Rightarrow> pyval \<Rightarrow> pilot_state \<Rightarrow> pilot_state \<times> bool" where
  "process_page lib page_data st =
     (case reviews_of_page page_data of
        Inl e \<Rightarrow> (st, False)
      | Inr reviews_on_page \<Rightarrow>
     (case (if current_page st = 1
            then first_page_limits page_data (total_pages st) (max_pages st)
            else Inr (total_pages st, max_pages st)) of
        Inl e \<Rightarrow> (st, False)
      | Inr (tp, mp) \<Rightarrow>
     let st = st\<lparr>total_pages := tp, max_pages := mp\<rparr> in
     if \<not> truthy reviews_on_page then (st, False)
     else
     (case py_iter reviews_on_page of
        Inl e \<Rightarrow> (st, False)
      | Inr review_jsons \<Rightarrow>
     (case extract_loop (parse_pilot lib) new_trustpilot_id review_jsons st 0 of
        (st, new_reviews_found_on_page, Some e) \<Rightarrow> (st, False)
      | (st, new_reviews_found_on_page, None) \<Rightarrow>
     (case py_ge (int (current_page st)) (total_pages st) of
        Inl e \<Rightarrow> (st, False)
      | Inr True \<Rightarrow> (st, False)
      | Inr False \<Rightarrow> (st\<lparr>current_page := current_page st + 1\<rparr>, True))))))"

text \<open>One iteration: the request, then the page.\<close>

definition fetch_page ::
  "('dt, 'x) pylib_scheme \<Rightarrow> (nat \<Rightarrow> page_response) \<Rightarrow> pilot_state \<Rightarrow> pilot_state \<times> bool" where
  "fetch_page lib pages st =
     (let st = st\<lparr>request_log := request_log st @ [current_page st]\<rparr> in
      case pages (current_page st) of
        RequestFailed \<Rightarrow> (st, False)
      | ParseFailed e \<Rightarrow> (st, False)
      | NoNextData \<Rightarrow> (st, False)
      | NextData page_data \<Rightarrow> process_page lib page_data st)"

text \<open>
  The \<^verbatim>\<open>while True\<close> loop. It goes on only from a page whose number is below an integer
  \<open>total_pages\<close>, and \<open>total_pages\<close> changes on page 1 only: that is why it terminates.
\<close>

function trustpilot_loop ::
  "('dt, 'x) pylib_scheme \<Rightarrow> (nat \<Rightarrow> page_response) \<Rightarrow> pilot_state \<Rightarrow> pilot_state" where
  "trustpilot_loop lib pages st =
     (case fetch_page lib pages st of
        (st, False) \<Rightarrow> st
      | (st, True) \<Rightarrow> trustpilot_loop lib pages st)"
  by pat_completeness auto
termination
proof (relation "measures [\<lambda>(lib, pages, st). 2 - current_page st,
    \<lambda>(lib, pages, st). case as_int (total_pages st) of
        None \<Rightarrow> 0 | Some t \<Rightarrow> nat (t - int (current_page st))]", simp)
  fix lib :: "('dt, 'x) pylib_scheme" and pages :: "nat \<Rightarrow> page_response"
    and st st' :: pilot_state and go :: bool
  assume run: "(st', go) = fetch_page lib pages st" and go: "go = True"
  have kept: "current_page s' = current_page s \<and> total_pages s' = total_pages s"
    if "extract_loop parse test xs s n = (s', n', err)"
    for parse :: "pyval \<Rightarrow> exn + pydict option" and test xs and s s' :: pilot_state and n n' err
    using that
  proof (induction xs arbitrary: s n)
    case Nil
    then show ?case by simp
  next
    case (Cons x xs)
    then show ?case
      by (auto simp: Let_def split: sum.splits option.splits)
  qed
  from run go obtain page_data s0 where
    page: "process_page lib page_data s0 = (st', True)"
    and s0: "current_page s0 = current_page st" "total_pages s0 = total_pages st"
    unfolding fetch_page_def
    by (auto simp: Let_def split: page_response.splits)
  from page have next_page: "current_page st' = current_page s0 + 1"
    and bound: "\<exists>t. as_int (total_pages st') = Some t \<and> int (current_page s0) < t"
    and same: "current_page s0 \<noteq> 1 \<longrightarrow> total_pages st' = total_pages s0"
    unfolding process_page_def py_ge_def
    by (auto simp: Let_def split: sum.splits option.splits prod.splits if_splits bool.splits
        dest!: kept)
  from bound obtain t where t: "as_int (total_pages st') = Some t" "int (current_page s0) < t"
    by blast
  show "((lib, pages, st'), lib, pages, st) \<in> measures
      [\<lambda>(lib, pages, st). 2 - current_page st,
       \<lambda>(lib, pages, st). case as_int (total_pages st) of
          None \<Rightarrow> 0 | Some t \<Rightarrow> nat (t - int (current_page st))]"
  proof (cases "current_page st < 2")
    case True
    then have "2 - current_page st' < 2 - current_page st" using next_page s0 by arith
    then show ?thesis by simp
  next
    case False
    then have "total_pages st' = total_pages st" using same s0 by simp
    then show ?thesis using False next_page s0 t by simp
  qed
qed

declare trustpilot_loop.simps [simp del]

definition run_trustpilot ::
  "('dt, 'x) pylib_scheme \<Rightarrow> (nat \<Rightarrow> page_response) \<Rightarrow> int \<Rightarrow> pilot_state" where
  "run_trustpilot lib pages max_pages_arg =
     trustpilot_loop lib pages
       \<lparr>all_reviews_data = [], seen_ids = {}, parsed_log = [], request_log = [],
        current_page = 1, total_pages = PInt 1, max_pages = max_pages_arg\<rparr>"

definition extract_trustpilot_reviews ::
  "('dt, 'x) pylib_scheme \<Rightarrow> (nat \<Rightarrow> page_response) \<Rightarrow> int \<Rightarrow> pydict list" where
  "extract_trustpilot_reviews lib pages max_pages_arg =
     map (\<lambda>review. dict_pop ''consumer_id'' (dict_pop ''id'' review))
       (all_reviews_data (run_trustpilot lib pages max_pages_arg))"

section \<open>Writing the table\<close>







section \<open>A library instance to run the model\<close>

text \<open>
  To evaluate the model on examples the library parameters need values. The instance below
  follows CPython on the date formats: \<^verbatim>\<open>strptime\<close> with \<^verbatim>\<open>'%Y.%m.%d'\<close> takes four digits,
  a month of one or two digits from 1 to 12 and a day of one or two digits (or a space and
  a digit) that exists in that month of that year; \<^verbatim>\<open>fromisoformat\<close> is given for the
  shape \<^verbatim>\<open>YYYY-MM-DDTHH:MM:SS\<close> with an optional fraction of three or six digits and an
  optional offset \<^verbatim>\<open>+HH:MM\<close> or \<^verbatim>\<open>-HH:MM\<close>, and refuses everything else. \<^verbatim>\<open>html.unescape\<close>
  and \<^verbatim>\<open>get_text\<close> are the identity, which is what they are on text without \<^verbatim>\<open>&\<close> and
  \<^verbatim>\<open><\<close>. The theorems below hold for every library; this one only runs the examples.
\<close>

record datetime =
  year :: nat
  month :: nat
  day :: nat
  hour :: nat
  minute :: nat
  second :: nat

definition is_digit :: "char \<Rightarrow> bool" where
  "is_digit c = (CHR ''0'' \<le> c \<and> c \<le> CHR ''9'')"

definition digits_value :: "string \<Rightarrow> nat" where
  "digits_value s = fold (\<lambda>c n. 10 * n + (of_char c - 48)) s 0"

definition number_of :: "string \<Rightarrow> nat option" where
  "number_of s = (if s \<noteq> [] \<and> list_all is_digit s then Some (digits_value s) else None)"

fun split_on :: "char \<Rightarrow> string \<Rightarrow> string list" where
  "split_on sep [] = [[]]"
| "split_on sep (c # cs) =
     (if c = sep then [] # split_on sep cs
      else (case split_on sep cs of [] \<Rightarrow> [[c]] | w # ws \<Rightarrow> (c # w) # ws))"

definition is_leap :: "nat \<Rightarrow> bool" where
  "is_leap y = (y mod 4 = 0 \<and> (y mod 100 \<noteq> 0 \<or> y mod 400 = 0))"

definition days_in_month :: "nat \<Rightarrow> nat \<Rightarrow> nat" where
  "days_in_month y m =
     (if m = 2 then (if is_leap y then 29 else 28)
      else if m \<in> {4, 6, 9, 11} then 30 else 31)"

definition valid_date :: "nat \<Rightarrow> nat \<Rightarrow> nat \<Rightarrow> bool" where
  "valid_date y m d = (1 \<le> y \<and> 1 \<le> m \<and> m \<le> 12 \<and> 1 \<le> d \<and> d \<le> days_in_month y m)"

definition demo_strptime_dot :: "string \<Rightarrow> datetime option" where
  "demo_strptime_dot s =
     (case split_on CHR ''.'' s of
        [ys, ms, ds] \<Rightarrow>
          (case (number_of ys, number_of ms,
                 number_of (case ds of c # r \<Rightarrow> if c = CHR '' '' \<and> length r = 1 then r else ds
                            | [] \<Rightarrow> ds)) of
             (Some y, Some m, Some d) \<Rightarrow>
               if length ys = 4 \<and> length ms \<le> 2 \<and> length ds \<le> 2 \<and> valid_date y m d
               then Some \<lparr>year = y, month = m, day = d, hour = 0, minute = 0, second = 0\<rparr>
               else None
           | _ \<Rightarrow> None)
      | _ \<Rightarrow> None)"

definition valid_offset :: "string \<Rightarrow> bool" where
  "valid_offset s =
     (case s of
        [sg, h1, h2, c, m1, m2] \<Rightarrow>
          (sg = CHR ''+'' \<or> sg = CHR ''-'') \<and> c = CHR '':'' \<and> list_all is_digit [h1, h2, m1, m2]
          \<and> digits_value [h1, h2] < 24 \<and> digits_value [m1, m2] < 60
      | _ \<Rightarrow> False)"

definition valid_fraction_offset :: "string \<Rightarrow> bool" where
  "valid_fraction_offset s =
     (case s of
        [] \<Rightarrow> True
      | c # r \<Rightarrow>
          if c = CHR ''.'' then
            (let frac = takeWhile is_digit r; off = dropWhile is_digit r
             in (length frac = 3 \<or> length frac = 6) \<and> (off = [] \<or> valid_offset off))
          else valid_offset s)"

definition demo_fromisoformat :: "string \<Rightarrow> datetime option" where
  "demo_fromisoformat s =
     (let d = take 10 s; t = take 8 (drop 11 s) in
      if length s < 19 \<or> \<not> valid_fraction_offset (drop 19 s) then None
      else
        (case (split_on CHR ''-'' d, split_on CHR '':'' t) of
           ([ys, ms, ds], [hs, mins, ss]) \<Rightarrow>
             (case (number_of ys, number_of ms, number_of ds,
                    number_of hs, number_of mins, number_of ss) of
                (Some y, Some m, Some dd, Some h, Some mi, Some sec) \<Rightarrow>
                  if length ys = 4 \<and> length ms = 2 \<and> length ds = 2 \<and> length hs = 2
                     \<and> length mins = 2 \<and> length ss = 2
                     \<and> valid_date y m dd \<and> h < 24 \<and> mi < 60 \<and> sec < 60
                  then Some \<lparr>year = y, month = m, day = dd, hour = h, minute = mi, second = sec\<rparr>
                  else None
              | _ \<Rightarrow> None)
         | _ \<Rightarrow> None))"

definition digit_char :: "nat \<Rightarrow> char" where
  "digit_char n = ''0123456789'' ! (n mod 10)"

definition pad2 :: "nat \<Rightarrow> string" where
  "pad2 n = [digit_char (n div 10), digit_char n]"

definition pad4 :: "nat \<Rightarrow> string" where
  "pad4 n = [digit_char (n div 1000), digit_char (n div 100), digit_char (n div 10), digit_char n]"

definition demo_strftime_date :: "datetime \<Rightarrow> string" where
  "demo_strftime_date d = pad4 (year d) @ ''-'' @ pad2 (month d) @ ''-'' @ pad2 (day d)"

definition demo_strftime_datetime :: "datetime \<Rightarrow> string" where
  "demo_strftime_datetime d =
     demo_strftime_date d @ '' '' @ pad2 (hour d) @ '':'' @ pad2 (minute d) @ '':'' @ pad2 (second d)"

definition demo_lib :: "datetime pylib" where
  "demo_lib =
     \<lparr>strptime_dot = demo_strptime_dot,
      fromisoformat = demo_fromisoformat,
      strftime_date = demo_strftime_date,
      strftime_datetime = demo_strftime_datetime,
      html_unescape = (\<lambda>s. s),
      soup_get_text = (\<lambda>s. s)\<rparr>"





section \<open>What deduplication should give\<close>

text \<open>
  The identifier a record carries, as a member of the set of seen identifiers: for the
  Trustindex scripts the value under \<^verbatim>\<open>review_id\<close> when it is truthy and hashable, for the
  Trustpilot script the value under \<^verbatim>\<open>id\<close> when it is hashable (\<^verbatim>\<open>None\<close> included).
\<close>

definition review_id_key :: "pydict \<Rightarrow> pyval option" where
  "review_id_key rd =
     (case map_of rd ''review_id'' of
        None \<Rightarrow> None
      | Some rid \<Rightarrow>
          if truthy rid then (case hash_key rid of Inl e \<Rightarrow> None | Inr k \<Rightarrow> Some k) else None)"

definition trustpilot_key :: "pydict \<Rightarrow> pyval option" where
  "trustpilot_key rd =
     (case map_of rd ''id'' of
        None \<Rightarrow> None
      | Some rid \<Rightarrow> (case hash_key rid of Inl e \<Rightarrow> None | Inr k \<Rightarrow> Some k))"

text \<open>
  The elements of a list that carry an identifier no earlier element carries, in the
  order of the list.
\<close>

definition first_occurrences :: "('a \<Rightarrow> 'k option) \<Rightarrow> 'a list \<Rightarrow> 'a list" where
  "first_occurrences key xs =
     map (\<lambda>i. xs ! i)
       (filter (\<lambda>i. key (xs ! i) \<noteq> None \<and> (\<forall>j<i. key (xs ! j) \<noteq> key (xs ! i)))
          [0..<length xs])"


text \<open>
  The invariant of deduplication: the list holds the first occurrences of the records
  parsed so far, and the set holds the identifiers of the records parsed so far.
\<close>

definition deduplicated :: "(pydict \<Rightarrow> pyval option) \<Rightarrow> 'z scrape_state_scheme \<Rightarrow> bool" where
  "deduplicated key st \<longleftrightarrow>
     all_reviews_data st = first_occurrences key (parsed_log st)
     \<and> seen_ids st = {k. \<exists>rd \<in> set (parsed_log st). key rd = Some k}"

section \<open>Example runs\<close>

text \<open>
  Inputs on which the theorems below are run: three review elements, a browser in which
  every step succeeds and every click shows the same three elements, and a Trustpilot site
  of two pages whose third request fails.
\<close>

definition div_r1 :: review_div where
  "div_r1 = \<lparr>data_id = Some ''r1'', ti_name = Some '' Ann '', ti_date = Some ''2024.01.15'',
     ti_stars = Some 5, ti_review_content = Some ''Good flight'',
     class_attr = Some [''review'', ''source-Google'']\<rparr>"

definition div_r2 :: review_div where
  "div_r2 = \<lparr>data_id = Some ''r2'', ti_name = Some ''Bob'', ti_date = Some ''yesterday'',
     ti_stars = None, ti_review_content = None, class_attr = Some [''review'']\<rparr>"

definition div_noid :: review_div where
  "div_noid = \<lparr>data_id = None, ti_name = Some ''Cy'', ti_date = None,
     ti_stars = Some 1, ti_review_content = Some ''Late'', class_attr = None\<rparr>"

definition click_ok :: "review_div list \<Rightarrow> click1" where
  "click_ok divs = \<lparr>wait_clickable = None, scroll = None, direct_click = None,
     wait_presence = None, js_click = None, page_after = Inr divs\<rparr>"

definition demo_browser :: browser1 where
  "demo_browser = \<lparr>chrome_start = None, get_url = None,
     initial_page = Inr [div_r1, div_noid],
     click_at = (\<lambda>i. click_ok [div_r1, div_noid, div_r2]), driver_quit = None\<rparr>"

definition click_ok2 :: "review_div list \<Rightarrow> click2" where
  "click_ok2 divs = \<lparr>count_before = Inr 0, wait_presence2 = None, scroll2 = None,
     wait_clickable2 = None, find_button = None, direct_click2 = None, js_click2 = None,
     wait_increase = None, count_after = Inr (length divs), stabilize = None,
     button_displayed = Inr True, page_source2 = None, soup_select = Inr divs\<rparr>"

definition demo_browser2 :: browser2 where
  "demo_browser2 = \<lparr>chrome_start2 = None, get_url2 = None, initial_source2 = None,
     initial_select2 = Inr [div_r1, div_noid],
     click_at2 = (\<lambda>i. click_ok2 [div_r1, div_noid, div_r2]), driver_quit2 = None\<rparr>"

definition demo_review :: "string \<Rightarrow> string \<Rightarrow> pyval" where
  "demo_review rid published =
     PDict [(''id'', PStr rid),
            (''consumer'', PDict [(''displayName'', PStr ''Dee''), (''id'', PStr ''c9'')]),
            (''dates'', PDict [(''publishedDate'', PStr published),
                               (''experiencedDate'', PStr ''2024-03-01T00:00:00.000Z'')]),
            (''rating'', PInt 4),
            (''text'', PStr ''Fine<br>trip'')]"

definition demo_page :: "pyval list \<Rightarrow> pyval option \<Rightarrow> pyval" where
  "demo_page reviews tp =
     PDict [(''props'', PDict [(''pageProps'',
        PDict ((''reviews'', PList reviews) #
               (case tp of None \<Rightarrow> []
                | Some t \<Rightarrow> [(''filters'', PDict [(''pagination'', PDict [(''totalPages'', t)])])])))])]"

definition demo_pages :: "nat \<Rightarrow> page_response" where
  "demo_pages p =
     (if p = 1 then NextData (demo_page [demo_review ''t1'' ''2024-03-09T11:22:33.000Z'',
                                         demo_review ''t2'' ''last week''] (Some (PInt 3)))
      else if p = 2 then NextData (demo_page [demo_review ''t2'' ''last week'',
                                              demo_review ''t3'' ''2024-03-10T01:02:03.000Z''] None)
      else RequestFailed)"

text \<open>The record the Trustpilot parser makes of \<open>demo_review\<close>.\<close>

definition demo_record :: "string \<Rightarrow> string \<Rightarrow> pydict" where
  "demo_record rid pub =
        [(''id'', PStr rid), (''author'', PStr ''Dee''), (''consumer_id'', PStr ''c9''),
          (''consumer_reviews_count'', PNone), (''consumer_country'', PNone),
          (''date_published'', PStr pub),
          (''date_experience'', PStr ''2024-03-01''), (''rating'', PInt 4),
          (''title'', PNone), (''body'', PStr (''Fine'' @ [CHR 0x0A] @ ''trip'')),
          (''language'', PNone), (''likes'', PInt 0), (''is_verified'', PBool False),
          (''verification_source'', PStr ''Unknown'')]"


section \<open>The table writers\<close>








section \<open>The parsers\<close>

lemmas parse_defs = bind_exn_def try_value_def text_of_def len_find_all_def opt_str_def
  strip_def is_space_def source_of_classes_def startswith_def replace_def dict_set_def
  or_ValueError_def

lemmas demo_defs = demo_lib_def demo_strptime_dot_def number_of_def digits_value_def
  is_digit_def less_eq_char_def valid_date_def days_in_month_def is_leap_def
  demo_strftime_date_def pad2_def pad4_def digit_char_def demo_fromisoformat_def
  demo_strftime_datetime_def valid_fraction_offset_def valid_offset_def

lemma parse_date2_value:
  "parse_date2 lib s =
     Inr (PStr (case strptime_dot lib s of None \<Rightarrow> s | Some dt \<Rightarrow> strftime_date lib dt))"
  by (simp add: parse_date2_def try_value_def bind_exn_def or_ValueError_def split: option.splits)

lemma parse_review_div2_value:
  "parse_review_div2 lib d =
     (if data_id d = None \<or> data_id d = Some [] then Inr None
      else Inr (Some
        [(''review_id'', PStr (the (data_id d))),
         (''author'', case ti_name d of None \<Rightarrow> PNone | Some t \<Rightarrow> PStr (strip t)),
         (''date'', case ti_date d of None \<Rightarrow> PNone
            | Some t \<Rightarrow> PStr (case strptime_dot lib (strip t) of
                               None \<Rightarrow> strip t | Some dt \<Rightarrow> strftime_date lib dt)),
         (''rating'', case ti_stars d of None \<Rightarrow> PNone | Some n \<Rightarrow> PInt (int n)),
         (''body'', case ti_review_content d of None \<Rightarrow> PNone
            | Some t \<Rightarrow> PStr (html_unescape lib (strip t))),
         (''source_platform'',
            PStr (source_of_classes (case class_attr d of None \<Rightarrow> [] | Some cs \<Rightarrow> cs)))]))"
  by (auto simp: parse_review_div2_def Let_def opt_str_def bind_exn_def try_value_def text_of_def
      dict_set_def parse_date2_value split: option.splits)

lemma parse_review_div_value:
  "parse_review_div d =
     Inr [(''review_id'', opt_str (data_id d)),
          (''author'', case ti_name d of None \<Rightarrow> PNone | Some t \<Rightarrow> PStr (strip t)),
          (''date'', case ti_date d of None \<Rightarrow> PNone | Some t \<Rightarrow> PStr (strip t)),
          (''rating'', case ti_stars d of None \<Rightarrow> PNone | Some n \<Rightarrow> PInt (int n)),
          (''body'', case ti_review_content d of None \<Rightarrow> PNone | Some t \<Rightarrow> PStr (strip t)),
          (''source_platform'', PStr (case class_attr d of None \<Rightarrow> ''Unknown''
              | Some cs \<Rightarrow> source_of_classes cs))]"
  by (auto simp: parse_review_div_def bind_exn_def try_value_def text_of_def len_find_all_def
      split: option.splits)

lemma source_unknown:
  "\<forall>s \<in> set cs. \<not> startswith s ''source-'' \<Longrightarrow> source_of_classes cs = ''Unknown''"
  by (simp add: source_of_classes_def filter_False)

lemma bind_exn_Inr: "bind_exn m f = Inr y \<longleftrightarrow> (\<exists>x. m = Inr x \<and> f x = Inr y)"
  by (cases m) (simp_all add: bind_exn_def)

lemma parse_trustpilot_shape:
  assumes "parse_trustpilot_review_data lib rj = Inr rd"
  shows "\<exists>rid consumer author consumer_id reviews_count country dates published experienced
           date_published date_experience rating title raw_body s1 language likes labels
           verification is_verified src.
      py_get rj ''id'' PNone = Inr rid
    \<and> py_get rj ''dates'' (PDict []) = Inr dates
    \<and> py_get dates ''publishedDate'' PNone = Inr published
    \<and> py_get dates ''experiencedDate'' PNone = Inr experienced
    \<and> parse_iso_date lib (strftime_datetime lib) published = Inr date_published
    \<and> parse_iso_date lib (strftime_date lib) experienced = Inr date_experience
    \<and> rd = [(''id'', rid), (''author'', author), (''consumer_id'', consumer_id),
            (''consumer_reviews_count'', reviews_count), (''consumer_country'', country),
            (''date_published'', date_published), (''date_experience'', date_experience),
            (''rating'', rating), (''title'', title),
            (''body'', PStr (html_unescape lib (strip (soup_get_text lib
                 (replace s1 ''<br>'' [CHR 0x0A]))))),
            (''language'', language), (''likes'', likes), (''is_verified'', is_verified),
            (''verification_source'', src)]"
  using assms unfolding parse_trustpilot_review_data_def Let_def bind_exn_Inr dict_set_def
  by (elim exE conjE) (simp, blast)

lemma parse_iso_date_str:
  "parse_iso_date lib fmt (PStr s) =
     Inr (PStr (case fromisoformat lib (replace s ''Z'' ''+00:00'') of
                  None \<Rightarrow> s | Some dt \<Rightarrow> fmt dt))"
  by (simp add: parse_iso_date_def try_value_def bind_exn_def or_ValueError_def
      split: option.splits)

lemma parse_review_div2_r1:
  "parse_review_div2 demo_lib div_r1 =
     Inr (Some [(''review_id'', PStr ''r1''), (''author'', PStr ''Ann''),
                (''date'', PStr ''2024-01-15''), (''rating'', PInt 5),
                (''body'', PStr ''Good flight''), (''source_platform'', PStr ''Google'')])"
  by (simp add: parse_review_div2_def parse_date2_def div_r1_def parse_defs demo_defs)

lemma parse_review_div2_r2:
  "parse_review_div2 demo_lib div_r2 =
     Inr (Some [(''review_id'', PStr ''r2''), (''author'', PStr ''Bob''),
                (''date'', PStr ''yesterday''), (''rating'', PNone),
                (''body'', PNone), (''source_platform'', PStr ''Unknown'')])"
  by (simp add: parse_review_div2_def parse_date2_def div_r2_def parse_defs demo_defs)

lemma parse_review_div_r1:
  "parse_review_div div_r1 =
     Inr [(''review_id'', PStr ''r1''), (''author'', PStr ''Ann''),
          (''date'', PStr ''2024.01.15''), (''rating'', PInt 5),
          (''body'', PStr ''Good flight''), (''source_platform'', PStr ''Google'')]"
  by (simp add: parse_review_div_def div_r1_def parse_defs)

lemma parse_review_div_r2:
  "parse_review_div div_r2 =
     Inr [(''review_id'', PStr ''r2''), (''author'', PStr ''Bob''),
          (''date'', PStr ''yesterday''), (''rating'', PNone),
          (''body'', PNone), (''source_platform'', PStr ''Unknown'')]"
  by (simp add: parse_review_div_def div_r2_def parse_defs)

lemma parse_trustpilot_t1:
  "parse_trustpilot_review_data demo_lib (demo_review ''t1'' ''2024-03-09T11:22:33.000Z'') =
     Inr [(''id'', PStr ''t1''), (''author'', PStr ''Dee''), (''consumer_id'', PStr ''c9''),
          (''consumer_reviews_count'', PNone), (''consumer_country'', PNone),
          (''date_published'', PStr ''2024-03-09 11:22:33''),
          (''date_experience'', PStr ''2024-03-01''), (''rating'', PInt 4),
          (''title'', PNone), (''body'', PStr (''Fine'' @ [CHR 0x0A] @ ''trip'')),
          (''language'', PNone), (''likes'', PInt 0), (''is_verified'', PBool False),
          (''verification_source'', PStr ''Unknown'')]"
  by (simp add: parse_trustpilot_review_data_def demo_review_def parse_iso_date_def dict_get_def
      parse_defs demo_defs)

text \<open>
  Claim C10, as the code has it. \<^verbatim>\<open>parse_review_div\<close> of the second script never raises;
  it returns \<^verbatim>\<open>None\<close> exactly when the element has no \<^verbatim>\<open>data-id\<close> or an empty one, and
  otherwise a dictionary with exactly the keys \<^verbatim>\<open>review_id\<close>, \<^verbatim>\<open>author\<close>, \<^verbatim>\<open>date\<close>, \<^verbatim>\<open>rating\<close>,
  \<^verbatim>\<open>body\<close>, \<^verbatim>\<open>source_platform\<close>. A field whose element is missing is \<^verbatim>\<open>None\<close>
  (\<^verbatim>\<open>'Unknown'\<close> for the source platform when no class starts with \<^verbatim>\<open>source-\<close>); a date text
  that does not parse is not \<^verbatim>\<open>None\<close> but the stripped text itself.
\<close>

theorem parse_review_div2_total:
  "(\<exists>r. parse_review_div2 lib d = Inr r)
   \<and> (parse_review_div2 lib d = Inr None \<longleftrightarrow> data_id d = None \<or> data_id d = Some [])
   \<and> (\<forall>rd. parse_review_div2 lib d = Inr (Some rd) \<longrightarrow>
         keys rd = [''review_id'', ''author'', ''date'', ''rating'', ''body'', ''source_platform'']
         \<and> (ti_name d = None \<longrightarrow> map_of rd ''author'' = Some PNone)
         \<and> (ti_date d = None \<longrightarrow> map_of rd ''date'' = Some PNone)
         \<and> (\<forall>t. ti_date d = Some t \<and> strptime_dot lib (strip t) = None \<longrightarrow>
                map_of rd ''date'' = Some (PStr (strip t)))
         \<and> (ti_stars d = None \<longrightarrow> map_of rd ''rating'' = Some PNone)
         \<and> (ti_review_content d = None \<longrightarrow> map_of rd ''body'' = Some PNone)
         \<and> ((\<forall>cs. class_attr d = Some cs \<longrightarrow> (\<forall>s \<in> set cs. \<not> startswith s ''source-'')) \<longrightarrow>
                map_of rd ''source_platform'' = Some (PStr ''Unknown'')))"
proof (intro conjI allI impI)
  show "\<exists>r. parse_review_div2 lib d = Inr r"
    by (simp add: parse_review_div2_value)
  show "parse_review_div2 lib d = Inr None \<longleftrightarrow> data_id d = None \<or> data_id d = Some []"
    by (simp add: parse_review_div2_value)
next
  fix rd assume rd: "parse_review_div2 lib d = Inr (Some rd)"
  then have id: "\<not> (data_id d = None \<or> data_id d = Some [])"
    by (auto simp: parse_review_div2_value split: if_splits)
  have val: "rd =
        [(''review_id'', PStr (the (data_id d))),
         (''author'', case ti_name d of None \<Rightarrow> PNone | Some t \<Rightarrow> PStr (strip t)),
         (''date'', case ti_date d of None \<Rightarrow> PNone
            | Some t \<Rightarrow> PStr (case strptime_dot lib (strip t) of
                               None \<Rightarrow> strip t | Some dt \<Rightarrow> strftime_date lib dt)),
         (''rating'', case ti_stars d of None \<Rightarrow> PNone | Some n \<Rightarrow> PInt (int n)),
         (''body'', case ti_review_content d of None \<Rightarrow> PNone
            | Some t \<Rightarrow> PStr (html_unescape lib (strip t))),
         (''source_platform'',
            PStr (source_of_classes (case class_attr d of None \<Rightarrow> [] | Some cs \<Rightarrow> cs)))]"
    using rd id by (auto simp: parse_review_div2_value split: if_splits)
  show "keys rd = [''review_id'', ''author'', ''date'', ''rating'', ''body'', ''source_platform'']"
    by (simp add: val keys_def)
  show "map_of rd ''author'' = Some PNone" if "ti_name d = None"
    using that by (simp add: val)
  show "map_of rd ''date'' = Some PNone" if "ti_date d = None"
    using that by (simp add: val)
  show "map_of rd ''date'' = Some (PStr (strip t))"
    if "ti_date d = Some t \<and> strptime_dot lib (strip t) = None" for t
    using that by (simp add: val)
  show "map_of rd ''rating'' = Some PNone" if "ti_stars d = None"
    using that by (simp add: val)
  show "map_of rd ''body'' = Some PNone" if "ti_review_content d = None"
    using that by (simp add: val)
  show "map_of rd ''source_platform'' = Some (PStr ''Unknown'')"
    if "\<forall>cs. class_attr d = Some cs \<longrightarrow> (\<forall>s \<in> set cs. \<not> startswith s ''source-'')"
    using that by (cases "class_attr d") (simp_all add: val source_unknown source_of_classes_def)
qed

theorem parse_review_div2_total_witness:
  "data_id div_r2 = Some ''r2'' \<and> ti_stars div_r2 = None \<and> ti_review_content div_r2 = None
   \<and> parse_review_div2 demo_lib div_r2 =
        Inr (Some [(''review_id'', PStr ''r2''), (''author'', PStr ''Bob''),
                   (''date'', PStr ''yesterday''), (''rating'', PNone),
                   (''body'', PNone), (''source_platform'', PStr ''Unknown'')])
   \<and> keys [(''review_id'', PStr ''r2''), (''author'', PStr ''Bob''),
            (''date'', PStr ''yesterday''), (''rating'', PNone),
            (''body'', PNone), (''source_platform'', PStr ''Unknown'')]
        = [''review_id'', ''author'', ''date'', ''rating'', ''body'', ''source_platform'']
   \<and> data_id div_noid = None \<and> parse_review_div2 demo_lib div_noid = Inr None"
proof -
  have fields: "data_id div_r2 = Some ''r2''" "ti_stars div_r2 = None"
    "ti_review_content div_r2 = None"
    by (simp_all add: div_r2_def)
  have noid: "data_id div_noid = None"
    by (simp add: div_noid_def)
  from parse_review_div2_total [of demo_lib div_noid] noid
  have "parse_review_div2 demo_lib div_noid = Inr None"
    by blast
  moreover from parse_review_div2_total [of demo_lib div_r2] parse_review_div2_r2
  have "keys [(''review_id'', PStr ''r2''), (''author'', PStr ''Bob''),
            (''date'', PStr ''yesterday''), (''rating'', PNone),
            (''body'', PNone), (''source_platform'', PStr ''Unknown'')]
        = [''review_id'', ''author'', ''date'', ''rating'', ''body'', ''source_platform'']"
    by blast
  ultimately show ?thesis
    using fields noid parse_review_div2_r2 by simp
qed

text \<open>
  The claim as written says that any parse failure of a field gives \<^verbatim>\<open>None\<close> for it. The
  date text \<^verbatim>\<open>yesterday\<close> fails to parse (\<^verbatim>\<open>strptime\<close> raises \<^verbatim>\<open>ValueError\<close>), and the field
  holds the text.
\<close>

theorem unparsed_date_is_kept_counterexample:
  "ti_date div_r2 = Some ''yesterday''
   \<and> or_ValueError (strptime_dot demo_lib (strip ''yesterday'')) = Inl ValueError
   \<and> parse_review_div2 demo_lib div_r2 =
        Inr (Some [(''review_id'', PStr ''r2''), (''author'', PStr ''Bob''),
                   (''date'', PStr ''yesterday''), (''rating'', PNone),
                   (''body'', PNone), (''source_platform'', PStr ''Unknown'')])
   \<and> map_of [(''review_id'', PStr ''r2''), (''author'', PStr ''Bob''),
              (''date'', PStr ''yesterday''), (''rating'', PNone),
              (''body'', PNone), (''source_platform'', PStr ''Unknown'')] ''date'' \<noteq> Some PNone"
proof -
  have "or_ValueError (strptime_dot demo_lib (strip ''yesterday'')) = Inl ValueError"
    by (simp add: parse_defs demo_defs)
  then show ?thesis
    using parse_review_div2_r2 by (simp add: div_r2_def)
qed

text \<open>
  Claim C7, as the code has it. The second Trustindex script stores the date text
  reformatted as \<^verbatim>\<open>%Y-%m-%d\<close> when \<^verbatim>\<open>strptime\<close> accepts it and the stripped text otherwise. The
  Trustpilot script stores a published date string reformatted as \<^verbatim>\<open>%Y-%m-%d %H:%M:%S\<close>
  and an experienced date string as \<^verbatim>\<open>%Y-%m-%d\<close> when \<^verbatim>\<open>fromisoformat\<close> accepts them, and the
  string unchanged otherwise. The first Trustindex script has no date parsing: it stores
  the stripped text whatever its form.
\<close>

theorem dates_normalised:
  "(\<forall>i t. data_id d = Some i \<and> i \<noteq> [] \<and> ti_date d = Some t \<longrightarrow>
      (\<exists>rd. parse_review_div2 lib d = Inr (Some rd)
         \<and> map_of rd ''date'' =
             Some (PStr (case strptime_dot lib (strip t) of
                           None \<Rightarrow> strip t | Some dt \<Rightarrow> strftime_date lib dt))))
   \<and> (\<forall>rd dates s. parse_trustpilot_review_data lib rj = Inr rd
         \<and> py_get rj ''dates'' (PDict []) = Inr dates
         \<and> py_get dates ''publishedDate'' PNone = Inr (PStr s) \<longrightarrow>
         map_of rd ''date_published'' =
           Some (PStr (case fromisoformat lib (replace s ''Z'' ''+00:00'') of
                         None \<Rightarrow> s | Some dt \<Rightarrow> strftime_datetime lib dt)))
   \<and> (\<forall>rd dates s. parse_trustpilot_review_data lib rj = Inr rd
         \<and> py_get rj ''dates'' (PDict []) = Inr dates
         \<and> py_get dates ''experiencedDate'' PNone = Inr (PStr s) \<longrightarrow>
         map_of rd ''date_experience'' =
           Some (PStr (case fromisoformat lib (replace s ''Z'' ''+00:00'') of
                         None \<Rightarrow> s | Some dt \<Rightarrow> strftime_date lib dt)))
   \<and> (\<forall>t. ti_date d = Some t \<longrightarrow>
         (\<exists>rd. parse_review_div d = Inr rd \<and> map_of rd ''date'' = Some (PStr (strip t))))"
proof (intro conjI allI impI)
  fix i t assume "data_id d = Some i \<and> i \<noteq> [] \<and> ti_date d = Some t"
  then show "\<exists>rd. parse_review_div2 lib d = Inr (Some rd)
         \<and> map_of rd ''date'' =
             Some (PStr (case strptime_dot lib (strip t) of
                           None \<Rightarrow> strip t | Some dt \<Rightarrow> strftime_date lib dt))"
    by (simp add: parse_review_div2_value)
next
  fix rd dates s
  assume a: "parse_trustpilot_review_data lib rj = Inr rd
         \<and> py_get rj ''dates'' (PDict []) = Inr dates
         \<and> py_get dates ''publishedDate'' PNone = Inr (PStr s)"
  from parse_trustpilot_shape [of lib rj rd] a
  show "map_of rd ''date_published'' =
           Some (PStr (case fromisoformat lib (replace s ''Z'' ''+00:00'') of
                         None \<Rightarrow> s | Some dt \<Rightarrow> strftime_datetime lib dt))"
    by (auto simp: parse_iso_date_str)
next
  fix rd dates s
  assume a: "parse_trustpilot_review_data lib rj = Inr rd
         \<and> py_get rj ''dates'' (PDict []) = Inr dates
         \<and> py_get dates ''experiencedDate'' PNone = Inr (PStr s)"
  from parse_trustpilot_shape [of lib rj rd] a
  show "map_of rd ''date_experience'' =
           Some (PStr (case fromisoformat lib (replace s ''Z'' ''+00:00'') of
                         None \<Rightarrow> s | Some dt \<Rightarrow> strftime_date lib dt))"
    by (auto simp: parse_iso_date_str)
next
  fix t assume "ti_date d = Some t"
  then show "\<exists>rd. parse_review_div d = Inr rd \<and> map_of rd ''date'' = Some (PStr (strip t))"
    by (simp add: parse_review_div_value)
qed

theorem dates_normalised_witness:
  "data_id div_r1 = Some ''r1'' \<and> ''r1'' \<noteq> [] \<and> ti_date div_r1 = Some ''2024.01.15''
   \<and> (\<exists>rd. parse_review_div2 demo_lib div_r1 = Inr (Some rd)
          \<and> map_of rd ''date'' = Some (PStr ''2024-01-15''))
   \<and> (\<exists>rd. parse_trustpilot_review_data demo_lib
               (demo_review ''t1'' ''2024-03-09T11:22:33.000Z'') = Inr rd
          \<and> map_of rd ''date_published'' = Some (PStr ''2024-03-09 11:22:33'')
          \<and> map_of rd ''date_experience'' = Some (PStr ''2024-03-01''))
   \<and> (\<exists>rd. parse_review_div div_r1 = Inr rd \<and> map_of rd ''date'' = Some (PStr ''2024.01.15''))"
proof -
  let ?rj = "demo_review ''t1'' ''2024-03-09T11:22:33.000Z''"
  note inst = dates_normalised [of div_r1 demo_lib ?rj]
  have fields: "data_id div_r1 = Some ''r1''" "ti_date div_r1 = Some ''2024.01.15''"
    by (simp_all add: div_r1_def)
  have iso: "(case strptime_dot demo_lib (strip ''2024.01.15'') of
               None \<Rightarrow> strip ''2024.01.15'' | Some dt \<Rightarrow> strftime_date demo_lib dt) = ''2024-01-15''"
    by (simp add: parse_defs demo_defs)
  from inst fields have "\<exists>rd. parse_review_div2 demo_lib div_r1 = Inr (Some rd)
         \<and> map_of rd ''date'' =
             Some (PStr (case strptime_dot demo_lib (strip ''2024.01.15'') of
                           None \<Rightarrow> strip ''2024.01.15'' | Some dt \<Rightarrow> strftime_date demo_lib dt))"
    by blast
  then have one: "\<exists>rd. parse_review_div2 demo_lib div_r1 = Inr (Some rd)
          \<and> map_of rd ''date'' = Some (PStr ''2024-01-15'')"
    by (simp only: iso)
  have dates: "py_get ?rj ''dates'' (PDict []) =
      Inr (PDict [(''publishedDate'', PStr ''2024-03-09T11:22:33.000Z''),
                  (''experiencedDate'', PStr ''2024-03-01T00:00:00.000Z'')])"
    by (simp add: demo_review_def dict_get_def)
  have pub: "py_get (PDict [(''publishedDate'', PStr ''2024-03-09T11:22:33.000Z''),
                  (''experiencedDate'', PStr ''2024-03-01T00:00:00.000Z'')]) ''publishedDate'' PNone
             = Inr (PStr ''2024-03-09T11:22:33.000Z'')"
    and exp: "py_get (PDict [(''publishedDate'', PStr ''2024-03-09T11:22:33.000Z''),
                  (''experiencedDate'', PStr ''2024-03-01T00:00:00.000Z'')]) ''experiencedDate'' PNone
             = Inr (PStr ''2024-03-01T00:00:00.000Z'')"
    by (simp_all add: dict_get_def)
  have isop: "(case fromisoformat demo_lib (replace ''2024-03-09T11:22:33.000Z'' ''Z'' ''+00:00'') of
                 None \<Rightarrow> ''2024-03-09T11:22:33.000Z'' | Some dt \<Rightarrow> strftime_datetime demo_lib dt)
              = ''2024-03-09 11:22:33''"
    and isoe: "(case fromisoformat demo_lib (replace ''2024-03-01T00:00:00.000Z'' ''Z'' ''+00:00'') of
                 None \<Rightarrow> ''2024-03-01T00:00:00.000Z'' | Some dt \<Rightarrow> strftime_date demo_lib dt)
              = ''2024-03-01''"
    by (simp_all add: parse_defs demo_defs)
  from inst parse_trustpilot_t1 dates pub
  have "map_of [(''id'', PStr ''t1''), (''author'', PStr ''Dee''), (''consumer_id'', PStr ''c9''),
          (''consumer_reviews_count'', PNone), (''consumer_country'', PNone),
          (''date_published'', PStr ''2024-03-09 11:22:33''),
          (''date_experience'', PStr ''2024-03-01''), (''rating'', PInt 4),
          (''title'', PNone), (''body'', PStr (''Fine'' @ [CHR 0x0A] @ ''trip'')),
          (''language'', PNone), (''likes'', PInt 0), (''is_verified'', PBool False),
          (''verification_source'', PStr ''Unknown'')] ''date_published''
        = Some (PStr (case fromisoformat demo_lib (replace ''2024-03-09T11:22:33.000Z'' ''Z'' ''+00:00'') of
                 None \<Rightarrow> ''2024-03-09T11:22:33.000Z'' | Some dt \<Rightarrow> strftime_datetime demo_lib dt))"
    by blast
  then have two: "\<exists>rd. parse_trustpilot_review_data demo_lib ?rj = Inr rd
          \<and> map_of rd ''date_published'' = Some (PStr ''2024-03-09 11:22:33'')
          \<and> map_of rd ''date_experience'' = Some (PStr ''2024-03-01'')"
    using parse_trustpilot_t1 by (simp add: isop)
  from inst fields have three: "\<exists>rd. parse_review_div div_r1 = Inr rd
      \<and> map_of rd ''date'' = Some (PStr (strip ''2024.01.15''))"
    by blast
  have "strip ''2024.01.15'' = ''2024.01.15''"
    by (simp add: parse_defs)
  with one two three fields show ?thesis by simp
qed

text \<open>
  The claim as written covers \<^verbatim>\<open>parse_review_div\<close> of \<^verbatim>\<open>trustindex_scraper.py\<close> too. There
  the text \<^verbatim>\<open>2024.01.15\<close>, which \<^verbatim>\<open>strptime\<close> accepts and \<^verbatim>\<open>strftime\<close> would turn into
  \<^verbatim>\<open>2024-01-15\<close>, is stored as it is.
\<close>

theorem first_script_keeps_date_text_counterexample:
  "ti_date div_r1 = Some ''2024.01.15''
   \<and> strptime_dot demo_lib (strip ''2024.01.15'') =
        Some \<lparr>year = 2024, month = 1, day = 15, hour = 0, minute = 0, second = 0\<rparr>
   \<and> strftime_date demo_lib \<lparr>year = 2024, month = 1, day = 15, hour = 0, minute = 0, second = 0\<rparr>
        = ''2024-01-15''
   \<and> parse_review_div div_r1 =
        Inr [(''review_id'', PStr ''r1''), (''author'', PStr ''Ann''),
             (''date'', PStr ''2024.01.15''), (''rating'', PInt 5),
             (''body'', PStr ''Good flight''), (''source_platform'', PStr ''Google'')]"
proof -
  have "strptime_dot demo_lib (strip ''2024.01.15'') =
        Some \<lparr>year = 2024, month = 1, day = 15, hour = 0, minute = 0, second = 0\<rparr>"
    by (simp add: parse_defs demo_defs)
  moreover have "strftime_date demo_lib
      \<lparr>year = 2024, month = 1, day = 15, hour = 0, minute = 0, second = 0\<rparr> = ''2024-01-15''"
    by (simp add: demo_defs)
  ultimately show ?thesis
    using parse_review_div_r1 by (simp add: div_r1_def)
qed


section \<open>Deduplication and the loops: auxiliary facts\<close>

lemma first_occurrences_Nil: "first_occurrences key [] = []"
  by (simp add: first_occurrences_def)

lemma first_occurrences_snoc:
  "first_occurrences key (xs @ [x]) =
     first_occurrences key xs @
       (if key x \<noteq> None \<and> key x \<notin> key ` set xs then [x] else [])"
proof -
  define P where "P = (\<lambda>i. key (xs ! i) \<noteq> None \<and> (\<forall>j<i. key (xs ! j) \<noteq> key (xs ! i)))"
  define Q where "Q = (\<lambda>i. key ((xs @ [x]) ! i) \<noteq> None \<and>
                 (\<forall>j<i. key ((xs @ [x]) ! j) \<noteq> key ((xs @ [x]) ! i)))"
  have fo: "first_occurrences key xs = map ((!) xs) (filter P [0..<length xs])"
    unfolding first_occurrences_def P_def ..
  have fo': "first_occurrences key (xs @ [x]) =
      map ((!) (xs @ [x])) (filter Q [0..<length xs]) @ (if Q (length xs) then [x] else [])"
    unfolding first_occurrences_def Q_def by simp
  have old: "filter Q [0..<length xs] = filter P [0..<length xs]"
    by (rule filter_cong) (auto simp: P_def Q_def nth_append)
  have last: "(\<forall>j<length xs. key ((xs @ [x]) ! j) \<noteq> key x) \<longleftrightarrow> key x \<notin> key ` set xs"
  proof
    assume a: "\<forall>j<length xs. key ((xs @ [x]) ! j) \<noteq> key x"
    show "key x \<notin> key ` set xs"
    proof
      assume "key x \<in> key ` set xs"
      then obtain j where "j < length xs" "key (xs ! j) = key x"
        by (auto simp: in_set_conv_nth)
      with a show False by (auto simp: nth_append)
    qed
  next
    assume a: "key x \<notin> key ` set xs"
    show "\<forall>j<length xs. key ((xs @ [x]) ! j) \<noteq> key x"
    proof (intro allI impI)
      fix j assume "j < length xs"
      then have "xs ! j \<in> set xs" by simp
      then have "key (xs ! j) \<in> key ` set xs" by (rule imageI)
      with a have "key (xs ! j) \<noteq> key x" by metis
      with \<open>j < length xs\<close> show "key ((xs @ [x]) ! j) \<noteq> key x"
        by (simp add: nth_append)
    qed
  qed
  have Qlast: "Q (length xs) \<longleftrightarrow> key x \<noteq> None \<and> key x \<notin> key ` set xs"
    using last by (simp add: Q_def)
  have mp: "map ((!) (xs @ [x])) (filter P [0..<length xs])
        = map ((!) xs) (filter P [0..<length xs])"
    by (rule map_cong) (auto simp: nth_append)
  show ?thesis
    by (simp only: fo fo' old Qlast mp)
qed

lemma first_occurrences_keys:
  "key ` set (first_occurrences key xs) = key ` set xs - {None}"
proof (induction xs rule: rev_induct)
  case Nil
  then show ?case by (simp add: first_occurrences_Nil)
next
  case (snoc x xs)
  show ?case
  proof (cases "key x \<noteq> None \<and> key x \<notin> key ` set xs")
    case True
    then show ?thesis using snoc by (auto simp: first_occurrences_snoc)
  next
    case False
    then have "first_occurrences key (xs @ [x]) = first_occurrences key xs"
      by (simp add: first_occurrences_snoc)
    moreover have "key ` set (xs @ [x]) - {None} = key ` set xs - {None}"
      using False by auto
    ultimately show ?thesis using snoc by simp
  qed
qed

lemma first_occurrences_distinct:
  "distinct (map key (first_occurrences key xs))"
proof (induction xs rule: rev_induct)
  case Nil
  then show ?case by (simp add: first_occurrences_Nil)
next
  case (snoc x xs)
  have "key x \<notin> key ` set (first_occurrences key xs)" if "key x \<notin> key ` set xs"
    using that first_occurrences_keys [of key xs] by blast
  with snoc show ?case
    by (auto simp: first_occurrences_snoc)
qed

lemma new_review_id_Some:
  "new_review_id (Some rd) seen = Inr (Some k) \<longleftrightarrow> review_id_key rd = Some k \<and> k \<notin> seen"
  by (cases rd; cases "map_of rd ''review_id''")
     (auto simp: new_review_id_def review_id_key_def bind_exn_def split: sum.splits if_splits)

lemma new_review_id_None: "new_review_id None seen \<noteq> Inr (Some k)"
  by (simp add: new_review_id_def)

lemma new_review_id_Inl:
  "new_review_id (Some rd) seen = Inl e \<Longrightarrow> review_id_key rd = None"
  by (cases rd; cases "map_of rd ''review_id''")
     (auto simp: new_review_id_def review_id_key_def bind_exn_def split: sum.splits if_splits)

lemma new_trustpilot_id_Some:
  "new_trustpilot_id (Some rd) seen = Inr (Some k) \<longleftrightarrow> trustpilot_key rd = Some k \<and> k \<notin> seen"
  by (cases rd; cases "map_of rd ''id''")
     (auto simp: new_trustpilot_id_def trustpilot_key_def bind_exn_def split: sum.splits if_splits)

lemma new_trustpilot_id_None: "new_trustpilot_id None seen \<noteq> Inr (Some k)"
  by (simp add: new_trustpilot_id_def)

lemma new_trustpilot_id_Inl:
  "new_trustpilot_id (Some rd) seen = Inl e \<Longrightarrow> trustpilot_key rd = None"
  by (cases rd; cases "map_of rd ''id''")
     (auto simp: new_trustpilot_id_def trustpilot_key_def bind_exn_def split: sum.splits if_splits)

text \<open>The invariant of deduplication.\<close>

lemma extract_loop_dedup:
  assumes T1: "\<And>rd seen k. test (Some rd) seen = Inr (Some k) \<longleftrightarrow> key rd = Some k \<and> k \<notin> seen"
    and T2: "\<And>seen k. test None seen \<noteq> Inr (Some k)"
    and T3: "\<And>rd seen e. test (Some rd) seen = Inl e \<Longrightarrow> key rd = None"
  shows "extract_loop parse test xs st n = (st', n', err) \<Longrightarrow>
     all_reviews_data st = first_occurrences key (parsed_log st) \<Longrightarrow>
     seen_ids st = {k. \<exists>rd \<in> set (parsed_log st). key rd = Some k} \<Longrightarrow>
     all_reviews_data st' = first_occurrences key (parsed_log st') \<and>
     seen_ids st' = {k. \<exists>rd \<in> set (parsed_log st'). key rd = Some k}"
proof (induction xs arbitrary: st n)
  case Nil
  then show ?case by simp
next
  case (Cons x xs)
  show ?case
  proof (cases "parse x")
    case (Inl e)
    with Cons.prems show ?thesis by simp
  next
    case (Inr review_data)
    show ?thesis
    proof (cases review_data)
      case None
      have "test None (seen_ids st) = Inr None \<or> (\<exists>e. test None (seen_ids st) = Inl e)"
        using T2 [of "seen_ids st"] by (cases "test None (seen_ids st)") auto
      then show ?thesis
      proof
        assume "test None (seen_ids st) = Inr None"
        with Cons.prems Inr None have "extract_loop parse test xs st n = (st', n', err)"
          by (simp add: Let_def)
        from Cons.IH [OF this Cons.prems(2,3)] show ?thesis .
      next
        assume "\<exists>e. test None (seen_ids st) = Inl e"
        with Cons.prems Inr None show ?thesis by (auto simp: Let_def)
      qed
    next
      case (Some rd)
      let ?st = "st\<lparr>parsed_log := parsed_log st @ [rd]\<rparr>"
      show ?thesis
      proof (cases "test (Some rd) (seen_ids st)")
        case (Inl e)
        then have "key rd = None" by (rule T3)
        then have "first_occurrences key (parsed_log st @ [rd]) = first_occurrences key (parsed_log st)"
          by (simp add: first_occurrences_snoc)
        moreover have "st' = ?st"
          using Cons.prems(1) \<open>parse x = Inr review_data\<close> Some Inl by (simp add: Let_def)
        ultimately show ?thesis
          using Cons.prems(2,3) \<open>key rd = None\<close> by auto
      next
        case (Inr r)
        show ?thesis
        proof (cases r)
          case None
          then have no: "\<And>k. \<not> (key rd = Some k \<and> k \<notin> seen_ids st)"
            using T1 [of rd "seen_ids st"] Inr by simp
          have old: "key rd = None \<or> key rd \<in> key ` set (parsed_log st)"
          proof (cases "key rd")
            case None
            then show ?thesis by simp
          next
            case (Some a)
            with no have "a \<in> seen_ids st" by blast
            then obtain r where "r \<in> set (parsed_log st)" "key r = Some a"
              using Cons.prems(3) by blast
            then have "Some a \<in> key ` set (parsed_log st)" by (metis imageI)
            with Some show ?thesis by simp
          qed
          then have fo: "first_occurrences key (parsed_log st @ [rd])
              = first_occurrences key (parsed_log st)"
            by (auto simp: first_occurrences_snoc)
          have run: "extract_loop parse test xs ?st n = (st', n', err)"
            using Cons.prems(1) \<open>parse x = Inr review_data\<close> Some Inr None by (simp add: Let_def)
          have i1: "all_reviews_data ?st = first_occurrences key (parsed_log ?st)"
            using Cons.prems(2) fo by simp
          have i2: "seen_ids ?st = {k. \<exists>rd \<in> set (parsed_log ?st). key rd = Some k}"
            using Cons.prems(3) no by auto
          from Cons.IH [OF run i1 i2] show ?thesis .
        next
          case (Some k)
          then have k: "key rd = Some k" "k \<notin> seen_ids st"
            using T1 [of rd "seen_ids st" k] Inr by simp_all
          then have "key rd \<notin> key ` set (parsed_log st)"
            using Cons.prems(3) by (auto simp: image_iff)
          then have fo: "first_occurrences key (parsed_log st @ [rd])
              = first_occurrences key (parsed_log st) @ [rd]"
            using k by (simp add: first_occurrences_snoc)
          let ?st2 = "?st\<lparr>all_reviews_data := all_reviews_data ?st @ [rd],
                        seen_ids := insert k (seen_ids ?st)\<rparr>"
          have run: "extract_loop parse test xs ?st2 (n + 1) = (st', n', err)"
            using Cons.prems(1) \<open>parse x = Inr review_data\<close> \<open>review_data = Some rd\<close> Inr Some
            by (simp add: Let_def)
          have i1: "all_reviews_data ?st2 = first_occurrences key (parsed_log ?st2)"
            using Cons.prems(2) fo by simp
          have i2: "seen_ids ?st2 = {k. \<exists>rd \<in> set (parsed_log ?st2). key rd = Some k}"
            using Cons.prems(3) k by auto
          from Cons.IH [OF run i1 i2] show ?thesis .
        qed
      qed
    qed
  qed
qed

lemma extract_loop_request_log:
  "extract_loop parse test xs st n = (st', n', err) \<Longrightarrow> request_log st' = request_log st"
proof (induction xs arbitrary: st n)
  case Nil
  then show ?case by simp
next
  case (Cons x xs)
  then show ?case
    by (auto simp: Let_def split: sum.splits option.splits)
qed

lemma extract_loop_pilot_fields:
  "extract_loop parse test xs st n = (st', n', err) \<Longrightarrow>
     current_page st' = current_page st \<and> total_pages st' = total_pages st \<and>
     max_pages st' = max_pages st"
proof (induction xs arbitrary: st n)
  case Nil
  then show ?case by simp
next
  case (Cons x xs)
  then show ?case
    by (auto simp: Let_def split: sum.splits option.splits)
qed

lemma extract_loop_grows:
  "extract_loop parse test xs st n = (st', n', err) \<Longrightarrow>
     (\<exists>new. all_reviews_data st' = all_reviews_data st @ new) \<and> n \<le> n' \<and>
     seen_ids st \<subseteq> seen_ids st' \<and>
     (n' = n \<longrightarrow> all_reviews_data st' = all_reviews_data st \<and> seen_ids st' = seen_ids st)"
proof (induction xs arbitrary: st n)
  case Nil
  then show ?case by simp
next
  case (Cons x xs)
  show ?case
  proof (cases "parse x")
    case (Inl e)
    with Cons.prems show ?thesis by simp
  next
    case (Inr review_data)
    let ?parsed = "case review_data of None \<Rightarrow> [] | Some rd \<Rightarrow> [rd]"
    let ?st = "st\<lparr>parsed_log := parsed_log st @ ?parsed\<rparr>"
    show ?thesis
    proof (cases "test review_data (seen_ids st)")
      case (Inl e)
      with Cons.prems Inr show ?thesis by (auto simp: Let_def)
    next
      case r: (Inr r)
      show ?thesis
      proof (cases r)
        case None
        with Cons.prems Inr r have "extract_loop parse test xs ?st n = (st', n', err)"
          by (simp add: Let_def)
        from Cons.IH [OF this] show ?thesis by simp
      next
        case (Some k)
        let ?st2 = "?st\<lparr>all_reviews_data := all_reviews_data ?st @ ?parsed,
                        seen_ids := insert k (seen_ids ?st)\<rparr>"
        from Cons.prems Inr r Some
        have "extract_loop parse test xs ?st2 (n + 1) = (st', n', err)"
          by (simp add: Let_def)
        from Cons.IH [OF this] show ?thesis by auto
      qed
    qed
  qed
qed


lemma click_loop_preserves:
  assumes upd: "\<And>st l. P st \<Longrightarrow> P (st\<lparr>request_log := l\<rparr>)"
    and ext: "\<And>divs st n st' n' err.
        extract_loop parse1 new_review_id divs st n = (st', n', err) \<Longrightarrow> P st \<Longrightarrow> P st'"
  shows "P st \<Longrightarrow> P (click_loop clicks max_loops i st)"
proof (induction clicks max_loops i st rule: click_loop.induct)
  case (1 clicks max_loops loop_count st)
  let ?st = "st\<lparr>request_log := request_log st @ [loop_count]\<rparr>"
  have P0: "P ?st" using "1.prems" by (rule upd)
  show ?case
  proof (cases "int loop_count < max_loops")
    case False
    then show ?thesis using "1.prems" by (simp add: click_loop.simps)
  next
    case True
    show ?thesis
    proof (cases "click_and_load (clicks loop_count)")
      case (Inl e)
      with True P0 show ?thesis by (simp add: click_loop.simps)
    next
      case (Inr review_divs)
      obtain st' newly err where
        ex: "extract_loop parse1 new_review_id review_divs ?st 0 = (st', newly, err)"
        by (metis prod_cases3)
      have P': "P st'" using ex P0 by (rule ext)
      show ?thesis
      proof (cases "err = None \<and> newly \<noteq> 0")
        case False
        then have "click_loop clicks max_loops loop_count st = st'"
          using True Inr ex by (subst click_loop.simps) (auto split: option.splits)
        with P' show ?thesis by simp
      next
        case go: True
        then have eq: "click_loop clicks max_loops loop_count st
            = click_loop clicks max_loops (loop_count + 1) st'"
          using True Inr ex by (subst click_loop.simps) (auto split: option.splits)
        from "1.IH" [OF True refl Inr ex [symmetric] refl _ _ P'] go eq
        show ?thesis by simp
      qed
    qed
  qed
qed


lemma click_loop2_preserves:
  assumes upd: "\<And>st l. P st \<Longrightarrow> P (st\<lparr>request_log := l\<rparr>)"
    and ext: "\<And>divs st n st' n' err.
        extract_loop (parse_review_div2 lib) new_review_id divs st n = (st', n', err) \<Longrightarrow>
        P st \<Longrightarrow> P st'"
    and start: "P st"
  shows "P (click_loop2 lib clicks max_loops i known st)"
  using assms
proof (induction lib clicks max_loops i known st rule: click_loop2.induct)
  case (1 lib clicks max_loops loop_count known st)
  let ?st = "st\<lparr>request_log := request_log st @ [loop_count]\<rparr>"
  have P0: "P ?st" using "1.prems"(3) by (rule "1.prems"(1))
  show ?case
  proof (cases "int loop_count < max_loops")
    case False
    then show ?thesis using "1.prems"(3) by (simp add: click_loop2.simps)
  next
    case True
    show ?thesis
    proof (cases "count_before (clicks loop_count)")
      case (Inl e)
      with True P0 show ?thesis by (simp add: click_loop2.simps)
    next
      case cb: (Inr num)
      show ?thesis
      proof (cases "click_and_load2 (clicks loop_count)")
        case (Inl e)
        with True cb P0 show ?thesis by (simp add: click_loop2.simps)
      next
        case (Inr loaded)
        show ?thesis
        proof (cases loaded)
          case None
          with True cb Inr P0 show ?thesis by (simp add: click_loop2.simps)
        next
          case (Some current_divs)
          obtain st' newly err where
            ex: "extract_loop (parse_review_div2 lib) new_review_id current_divs ?st 0
                  = (st', newly, err)"
            by (metis prod_cases3)
          have P': "P st'" using ex P0 by (rule "1.prems"(2))
          show ?thesis
          proof (cases "err = None \<and> card (seen_ids st') \<noteq> known")
            case False
            then have "click_loop2 lib clicks max_loops loop_count known st = st'"
              using True cb Inr Some ex
              by (subst click_loop2.simps) (auto simp: Let_def split: option.splits)
            with P' show ?thesis by simp
          next
            case go: True
            then have eq: "click_loop2 lib clicks max_loops loop_count known st
                = click_loop2 lib clicks max_loops (loop_count + 1) (card (seen_ids st')) st'"
              using True cb Inr Some ex
              by (subst click_loop2.simps) (auto simp: Let_def split: option.splits)
            from "1.IH" [OF True refl cb Inr Some ex [symmetric] refl _ refl _
                "1.prems"(1) "1.prems"(2) P'] go eq
            show ?thesis by simp
          qed
        qed
      qed
    qed
  qed
qed

lemma py_getitem_exn: "py_getitem v k = Inl e \<Longrightarrow> e = KeyError \<or> e = TypeError"
  by (cases v) (auto split: option.splits)

lemma lookup_total_pages_exn:
  "lookup_total_pages page_data = Inl e \<Longrightarrow> e = KeyError \<or> e = TypeError"
  unfolding lookup_total_pages_def bind_exn_def
  by (auto split: sum.splits dest: py_getitem_exn)

lemma py_min_exn: "py_min a b = Inl e \<Longrightarrow> e = TypeError"
  by (auto simp: py_min_def split: option.splits)

lemma first_page_limits_value:
  "first_page_limits page_data tot maxp =
     Inr (case lookup_total_pages page_data of
            Inl e \<Rightarrow> (tot, if maxp = 0 then 1000 else maxp)
          | Inr found \<Rightarrow>
              (if maxp > 0
               then (case as_int found of
                       None \<Rightarrow> found
                     | Some i \<Rightarrow> if maxp < i then PInt maxp else found)
               else found, maxp))"
  unfolding first_page_limits_def
  by (auto simp: py_min_def split: sum.splits option.splits dest: lookup_total_pages_exn)

lemma extract_loop_kept:
  "extract_loop parse test xs st n = (st', n', err) \<Longrightarrow>
     current_page st' = current_page st \<and> total_pages st' = total_pages st \<and>
     max_pages st' = max_pages st \<and> request_log st' = request_log st"
  using extract_loop_pilot_fields [of parse test xs st n st' n' err]
    extract_loop_request_log [of parse test xs st n st' n' err]
  by simp

lemma first_page_limits_total:
  "\<exists>tp mp. (if current_page st = 1
             then first_page_limits page_data (total_pages st) (max_pages st)
             else Inr (total_pages st, max_pages st)) = Inr (tp, mp)"
  by (simp add: first_page_limits_value)

lemma process_page_facts:
  assumes "process_page lib page_data st = (st', go)"
  shows "request_log st' = request_log st"
    and "go \<Longrightarrow> current_page st' = current_page st + 1"
    and "go \<Longrightarrow> \<exists>T. as_int (total_pages st') = Some T \<and> int (current_page st) < T"
    and "\<not> go \<Longrightarrow> current_page st' = current_page st"
    and "current_page st \<noteq> 1 \<Longrightarrow> total_pages st' = total_pages st \<and> max_pages st' = max_pages st"
    and "current_page st = 1 \<Longrightarrow> go \<Longrightarrow>
          first_page_limits page_data (total_pages st) (max_pages st)
            = Inr (total_pages st', max_pages st')"
proof -
  obtain tp mp where lim: "(if current_page st = 1
             then first_page_limits page_data (total_pages st) (max_pages st)
             else Inr (total_pages st, max_pages st)) = Inr (tp, mp)"
    using first_page_limits_total by blast
  note run = assms [unfolded process_page_def lim py_ge_def, simplified]
  show "request_log st' = request_log st"
    using run
    by (auto simp: Let_def split: sum.splits option.splits prod.splits if_splits bool.splits
        dest!: extract_loop_kept)
  show "current_page st' = current_page st + 1" if go
    using run that
    by (auto simp: Let_def split: sum.splits option.splits prod.splits if_splits bool.splits
        dest!: extract_loop_kept)
  show "\<exists>T. as_int (total_pages st') = Some T \<and> int (current_page st) < T" if go
    using run that
    by (auto simp: Let_def split: sum.splits option.splits prod.splits if_splits bool.splits
        dest!: extract_loop_kept)
  show "current_page st' = current_page st" if "\<not> go"
    using run that
    by (auto simp: Let_def split: sum.splits option.splits prod.splits if_splits bool.splits
        dest!: extract_loop_kept)
  show "total_pages st' = total_pages st \<and> max_pages st' = max_pages st"
    if "current_page st \<noteq> 1"
    using run that lim
    by (auto simp: Let_def split: sum.splits option.splits prod.splits if_splits bool.splits
        dest!: extract_loop_kept)
  show "first_page_limits page_data (total_pages st) (max_pages st)
            = Inr (total_pages st', max_pages st')" if "current_page st = 1" go
    using run that lim
    by (auto simp: Let_def split: sum.splits option.splits prod.splits if_splits bool.splits
        dest!: extract_loop_kept)
qed

lemma fetch_page_facts:
  assumes "fetch_page lib pages st = (st', go)"
  shows "request_log st' = request_log st @ [current_page st]"
    and "go \<Longrightarrow> current_page st' = current_page st + 1"
    and "go \<Longrightarrow> \<exists>T. as_int (total_pages st') = Some T \<and> int (current_page st) < T"
    and "\<not> go \<Longrightarrow> current_page st' = current_page st"
    and "current_page st \<noteq> 1 \<Longrightarrow> total_pages st' = total_pages st \<and> max_pages st' = max_pages st"
    and "go \<Longrightarrow> \<exists>page_data. pages (current_page st) = NextData page_data \<and>
          (current_page st = 1 \<longrightarrow>
            first_page_limits page_data (total_pages st) (max_pages st)
              = Inr (total_pages st', max_pages st'))"
proof -
  let ?st = "st\<lparr>request_log := request_log st @ [current_page st]\<rparr>"
  show "request_log st' = request_log st @ [current_page st]"
    using assms process_page_facts(1) [of lib _ ?st st' go]
    by (auto simp: fetch_page_def Let_def split: page_response.splits)
  show "current_page st' = current_page st + 1" if go
    using assms that process_page_facts(2) [of lib _ ?st st' go]
    by (auto simp: fetch_page_def Let_def split: page_response.splits)
  show "\<exists>T. as_int (total_pages st') = Some T \<and> int (current_page st) < T" if go
    using assms that process_page_facts(3) [of lib _ ?st st' go]
    by (auto simp: fetch_page_def Let_def split: page_response.splits)
  show "current_page st' = current_page st" if "\<not> go"
    using assms that process_page_facts(4) [of lib _ ?st st' go]
    by (auto simp: fetch_page_def Let_def split: page_response.splits)
  show "total_pages st' = total_pages st \<and> max_pages st' = max_pages st"
    if "current_page st \<noteq> 1"
    using assms that process_page_facts(5) [of lib _ ?st st' go]
    by (auto simp: fetch_page_def Let_def split: page_response.splits)
  show "\<exists>page_data. pages (current_page st) = NextData page_data \<and>
          (current_page st = 1 \<longrightarrow>
            first_page_limits page_data (total_pages st) (max_pages st)
              = Inr (total_pages st', max_pages st'))" if go
    using assms that process_page_facts(6) [of lib _ ?st st' go]
    by (auto simp: fetch_page_def Let_def split: page_response.splits)
qed

lemma trustpilot_loop_stop:
  "fetch_page lib pages st = (st', False) \<Longrightarrow> trustpilot_loop lib pages st = st'"
  by (subst trustpilot_loop.simps) simp

lemma trustpilot_loop_go:
  "fetch_page lib pages st = (st', True) \<Longrightarrow>
     trustpilot_loop lib pages st = trustpilot_loop lib pages st'"
  by (subst trustpilot_loop.simps) simp

lemma trustpilot_loop_preserves:
  assumes "\<And>st st' go. fetch_page lib pages st = (st', go) \<Longrightarrow> P st \<Longrightarrow> P st'"
    and "P st"
  shows "P (trustpilot_loop lib pages st)"
  using assms
proof (induction lib pages st rule: trustpilot_loop.induct)
  case (1 lib pages st)
  obtain st' go where f: "fetch_page lib pages st = (st', go)"
    by (metis surj_pair)
  have P': "P st'" using f "1.prems"(2) by (rule "1.prems"(1))
  show ?case
  proof (cases go)
    case False
    with f P' show ?thesis by (simp add: trustpilot_loop_stop)
  next
    case True
    with f have "trustpilot_loop lib pages st = trustpilot_loop lib pages st'"
      by (simp add: trustpilot_loop_go)
    moreover have "P (trustpilot_loop lib pages st')"
      using "1.IH" [OF f [symmetric] _ "1.prems"(1) P'] True by simp
    ultimately show ?thesis by simp
  qed
qed

lemma trustpilot_limits_kept:
  "2 \<le> current_page st \<Longrightarrow>
     total_pages (trustpilot_loop lib pages st) = total_pages st \<and>
     max_pages (trustpilot_loop lib pages st) = max_pages st"
proof (induction lib pages st rule: trustpilot_loop.induct)
  case (1 lib pages st)
  obtain st' go where f: "fetch_page lib pages st = (st', go)"
    by (metis surj_pair)
  have kept: "total_pages st' = total_pages st \<and> max_pages st' = max_pages st"
    using fetch_page_facts(5) [OF f] "1.prems" by simp
  show ?case
  proof (cases go)
    case False
    with f kept show ?thesis by (simp add: trustpilot_loop_stop)
  next
    case True
    have "2 \<le> current_page st'"
      using fetch_page_facts(2) [OF f] True "1.prems" by simp
    from "1.IH" [OF f [symmetric] _ this] kept f True
    show ?thesis by (simp add: trustpilot_loop_go)
  qed
qed

lemma trustpilot_loop_log:
  "1 \<le> current_page st \<Longrightarrow>
   \<exists>n. current_page st \<le> n
     \<and> request_log (trustpilot_loop lib pages st) = request_log st @ [current_page st..<Suc n]
     \<and> (\<forall>p. current_page st \<le> p \<and> p < n \<longrightarrow> (\<exists>page_data. pages p = NextData page_data))
     \<and> (current_page st < n \<longrightarrow>
          (\<exists>T. as_int (total_pages (trustpilot_loop lib pages st)) = Some T \<and> int n \<le> T))"
proof (induction lib pages st rule: trustpilot_loop.induct)
  case (1 lib pages st)
  obtain st' go where f: "fetch_page lib pages st = (st', go)"
    by (metis surj_pair)
  note facts = fetch_page_facts [OF f]
  show ?case
  proof (cases go)
    case False
    with f have "trustpilot_loop lib pages st = st'" by (simp add: trustpilot_loop_stop)
    with facts(1) show ?thesis
      by (intro exI [of _ "current_page st"]) auto
  next
    case True
    have eq: "trustpilot_loop lib pages st = trustpilot_loop lib pages st'"
      using f True by (simp add: trustpilot_loop_go)
    have cp': "current_page st' = current_page st + 1" using facts(2) True by simp
    obtain T where T: "as_int (total_pages st') = Some T" "int (current_page st) < T"
      using facts(3) True by blast
    obtain page_data where pd: "pages (current_page st) = NextData page_data"
      using facts(6) True by blast
    have "1 \<le> current_page st'" using cp' by simp
    from "1.IH" [OF f [symmetric] _ this] True obtain n where
      n: "current_page st' \<le> n"
        "request_log (trustpilot_loop lib pages st') = request_log st' @ [current_page st'..<Suc n]"
        "\<forall>p. current_page st' \<le> p \<and> p < n \<longrightarrow> (\<exists>page_data. pages p = NextData page_data)"
        "current_page st' < n \<longrightarrow>
          (\<exists>T. as_int (total_pages (trustpilot_loop lib pages st')) = Some T \<and> int n \<le> T)"
      by blast
    have log: "request_log (trustpilot_loop lib pages st)
        = request_log st @ [current_page st..<Suc n]"
      using n(1,2) facts(1) cp' eq by (simp add: upt_conv_Cons)
    have pages: "\<forall>p. current_page st \<le> p \<and> p < n \<longrightarrow> (\<exists>page_data. pages p = NextData page_data)"
    proof (intro allI impI)
      fix p assume p: "current_page st \<le> p \<and> p < n"
      show "\<exists>page_data. pages p = NextData page_data"
      proof (cases "p = current_page st")
        case True
        with pd show ?thesis by simp
      next
        case False
        with p cp' have "current_page st' \<le> p \<and> p < n" by simp
        with n(3) show ?thesis by blast
      qed
    qed
    have bound: "\<exists>T. as_int (total_pages (trustpilot_loop lib pages st)) = Some T \<and> int n \<le> T"
    proof (cases "current_page st' < n")
      case True
      with n(4) eq show ?thesis by simp
    next
      case False
      with n(1) have "n = current_page st'" by simp
      moreover have "total_pages (trustpilot_loop lib pages st') = total_pages st'"
        using trustpilot_limits_kept [of st' lib pages] cp' "1.prems" by simp
      ultimately show ?thesis using T cp' eq by simp
    qed
    from n(1) cp' log pages bound show ?thesis
      by (intro exI [of _ n]) simp
  qed
qed


lemma process_page_preserves:
  assumes u2: "\<And>st tp mp. P st \<Longrightarrow> P (st\<lparr>total_pages := tp, max_pages := mp\<rparr>)"
    and u3: "\<And>st cp. P st \<Longrightarrow> P (st\<lparr>current_page := cp\<rparr>)"
    and ext: "\<And>xs st n st' n' err.
        extract_loop (parse_pilot lib) new_trustpilot_id xs st n = (st', n', err) \<Longrightarrow>
        P st \<Longrightarrow> P st'"
    and run: "process_page lib page_data st = (st', go)"
    and P: "P st"
  shows "P st'"
proof -
  obtain tp mp where lim: "(if current_page st = 1
             then first_page_limits page_data (total_pages st) (max_pages st)
             else Inr (total_pages st, max_pages st)) = Inr (tp, mp)"
    using first_page_limits_total by blast
  let ?st = "st\<lparr>total_pages := tp, max_pages := mp\<rparr>"
  have P1: "P ?st" using P by (rule u2)
  note r = run [unfolded process_page_def lim, simplified]
  show ?thesis
  proof (cases "reviews_of_page page_data")
    case (Inl e)
    with r P show ?thesis by simp
  next
    case (Inr reviews_on_page)
    show ?thesis
    proof (cases "truthy reviews_on_page")
      case False
      with r Inr P1 show ?thesis by (simp add: Let_def)
    next
      case True
      show ?thesis
      proof (cases "py_iter reviews_on_page")
        case (Inl e)
        with r Inr True P1 show ?thesis by (simp add: Let_def)
      next
        case items: (Inr review_jsons)
        obtain s n err where
          ex: "extract_loop (parse_pilot lib) new_trustpilot_id review_jsons ?st 0 = (s, n, err)"
          by (metis prod_cases3)
        have Ps: "P s" using ex P1 by (rule ext)
        then have "P (s\<lparr>current_page := current_page s + 1\<rparr>)" by (rule u3)
        with r Inr True items ex Ps show ?thesis
          by (auto simp: Let_def split: option.splits sum.splits bool.splits)
      qed
    qed
  qed
qed

lemma fetch_page_preserves:
  assumes u1: "\<And>st l. P st \<Longrightarrow> P (st\<lparr>request_log := l\<rparr>)"
    and u2: "\<And>st tp mp. P st \<Longrightarrow> P (st\<lparr>total_pages := tp, max_pages := mp\<rparr>)"
    and u3: "\<And>st cp. P st \<Longrightarrow> P (st\<lparr>current_page := cp\<rparr>)"
    and ext: "\<And>xs st n st' n' err.
        extract_loop (parse_pilot lib) new_trustpilot_id xs st n = (st', n', err) \<Longrightarrow>
        P st \<Longrightarrow> P st'"
    and run: "fetch_page lib pages st = (st', go)"
    and P: "P st"
  shows "P st'"
proof -
  let ?st = "st\<lparr>request_log := request_log st @ [current_page st]\<rparr>"
  have P0: "P ?st" using P by (rule u1)
  show ?thesis
  proof (cases "pages (current_page st)")
    case (NextData page_data)
    with run have "process_page lib page_data ?st = (st', go)"
      by (simp add: fetch_page_def Let_def)
    from process_page_preserves [of P, OF u2 u3 ext this P0] show ?thesis .
  qed (use run P0 in \<open>simp_all add: fetch_page_def Let_def\<close>)
qed

lemma init_dedup:
  "all_reviews_data init_state = first_occurrences key (parsed_log init_state)
   \<and> seen_ids init_state = {k. \<exists>rd \<in> set (parsed_log init_state). key rd = Some k}"
  by (simp add: init_state_def first_occurrences_Nil)

lemma extract_loop_dedup_review:
  assumes "extract_loop parse new_review_id xs st n = (st', n', err)"
    and "all_reviews_data st = first_occurrences review_id_key (parsed_log st)
      \<and> seen_ids st = {k. \<exists>rd \<in> set (parsed_log st). review_id_key rd = Some k}"
  shows "all_reviews_data st' = first_occurrences review_id_key (parsed_log st')
      \<and> seen_ids st' = {k. \<exists>rd \<in> set (parsed_log st'). review_id_key rd = Some k}"
proof (rule extract_loop_dedup [where test = new_review_id and key = review_id_key])
  show "new_review_id (Some rd) seen = Inr (Some k) \<longleftrightarrow> review_id_key rd = Some k \<and> k \<notin> seen"
    for rd seen k by (rule new_review_id_Some)
  show "new_review_id None seen \<noteq> Inr (Some k)" for seen k
    by (rule new_review_id_None)
  show "review_id_key rd = None" if "new_review_id (Some rd) seen = Inl e" for rd seen e
    using that by (rule new_review_id_Inl)
  show "extract_loop parse new_review_id xs st n = (st', n', err)"
    by (rule assms(1))
  show "all_reviews_data st = first_occurrences review_id_key (parsed_log st)"
    "seen_ids st = {k. \<exists>rd \<in> set (parsed_log st). review_id_key rd = Some k}"
    using assms(2) by simp_all
qed

lemma extract_loop_dedup_pilot:
  assumes "extract_loop parse new_trustpilot_id xs st n = (st', n', err)"
    and "all_reviews_data st = first_occurrences trustpilot_key (parsed_log st)
      \<and> seen_ids st = {k. \<exists>rd \<in> set (parsed_log st). trustpilot_key rd = Some k}"
  shows "all_reviews_data st' = first_occurrences trustpilot_key (parsed_log st')
      \<and> seen_ids st' = {k. \<exists>rd \<in> set (parsed_log st'). trustpilot_key rd = Some k}"
proof (rule extract_loop_dedup [where test = new_trustpilot_id and key = trustpilot_key])
  show "new_trustpilot_id (Some rd) seen = Inr (Some k) \<longleftrightarrow> trustpilot_key rd = Some k \<and> k \<notin> seen"
    for rd seen k by (rule new_trustpilot_id_Some)
  show "new_trustpilot_id None seen \<noteq> Inr (Some k)" for seen k
    by (rule new_trustpilot_id_None)
  show "trustpilot_key rd = None" if "new_trustpilot_id (Some rd) seen = Inl e" for rd seen e
    using that by (rule new_trustpilot_id_Inl)
  show "extract_loop parse new_trustpilot_id xs st n = (st', n', err)"
    by (rule assms(1))
  show "all_reviews_data st = first_occurrences trustpilot_key (parsed_log st)"
    "seen_ids st = {k. \<exists>rd \<in> set (parsed_log st). trustpilot_key rd = Some k}"
    using assms(2) by simp_all
qed

lemma deduplicated_init: "deduplicated key init_state"
  unfolding deduplicated_def by (rule init_dedup)

lemma deduplicated_distinct:
  assumes "deduplicated key st"
  shows "distinct (map key (all_reviews_data st))"
    and "None \<notin> set (map key (all_reviews_data st))"
proof -
  have eq: "all_reviews_data st = first_occurrences key (parsed_log st)"
    using assms by (simp add: deduplicated_def)
  show "distinct (map key (all_reviews_data st))"
    unfolding eq by (rule first_occurrences_distinct)
  show "None \<notin> set (map key (all_reviews_data st))"
    unfolding eq using first_occurrences_keys [of key "parsed_log st"] by auto
qed

lemma click_loop_dedup:
  "deduplicated review_id_key st \<Longrightarrow>
   deduplicated review_id_key (click_loop clicks max_loops i st)"
proof (rule click_loop_preserves [where P = "deduplicated review_id_key"])
  show "deduplicated review_id_key (st\<lparr>request_log := l\<rparr>)"
    if "deduplicated review_id_key st" for st :: scrape_state and l
    using that by (simp add: deduplicated_def)
  show "deduplicated review_id_key st'"
    if "extract_loop parse1 new_review_id divs st n = (st', n', err)"
      "deduplicated review_id_key st"
    for divs and st st' :: scrape_state and n n' err
    using that unfolding deduplicated_def by (rule extract_loop_dedup_review)
qed

lemma click_loop2_dedup:
  "deduplicated review_id_key st \<Longrightarrow>
   deduplicated review_id_key (click_loop2 lib clicks max_loops i known st)"
proof (rule click_loop2_preserves [where P = "deduplicated review_id_key"])
  show "deduplicated review_id_key (st\<lparr>request_log := l\<rparr>)"
    if "deduplicated review_id_key st" for st :: scrape_state and l
    using that by (simp add: deduplicated_def)
  show "deduplicated review_id_key st'"
    if "extract_loop (parse_review_div2 lib) new_review_id divs st n = (st', n', err)"
      "deduplicated review_id_key st"
    for divs and st st' :: scrape_state and n n' err
    using that unfolding deduplicated_def by (rule extract_loop_dedup_review)
qed

lemma run_selenium_dedup: "deduplicated review_id_key (run_selenium env max_loops)"
proof (cases "bind_exn (step (chrome_start env)) (\<lambda>_. step (get_url env))")
  case (Inl e)
  then show ?thesis by (simp add: run_selenium_def deduplicated_init)
next
  case started: (Inr u)
  show ?thesis
  proof (cases "initial_page env")
    case (Inl e)
    with started show ?thesis by (simp add: run_selenium_def deduplicated_init)
  next
    case (Inr review_divs)
    obtain st n err where
      ex: "extract_loop parse1 new_review_id review_divs init_state 0 = (st, n, err)"
      by (metis prod_cases3)
    have d: "deduplicated review_id_key st"
      using extract_loop_dedup_review [OF ex] deduplicated_init [of review_id_key]
      unfolding deduplicated_def by blast
    show ?thesis
    proof (cases err)
      case None
      with started Inr ex click_loop_dedup [OF d] show ?thesis
        by (simp add: run_selenium_def)
    next
      case (Some e)
      with started Inr ex d show ?thesis by (simp add: run_selenium_def)
    qed
  qed
qed

lemma run_selenium2_dedup: "deduplicated review_id_key (run_selenium2 lib env max_loops)"
proof (cases "bind_exn (step (chrome_start2 env)) (\<lambda>_. step (get_url2 env))")
  case (Inl e)
  then show ?thesis by (simp add: run_selenium2_def deduplicated_init)
next
  case started: (Inr u)
  show ?thesis
  proof (cases "step (initial_source2 env)")
    case (Inl e)
    with started show ?thesis by (simp add: run_selenium2_def deduplicated_init)
  next
    case (Inr u')
    obtain st n err where
      ex: "extract_loop (parse_review_div2 lib) new_review_id
             (get_review_divs_from_source (initial_select2 env)) init_state 0 = (st, n, err)"
      by (metis prod_cases3)
    have d: "deduplicated review_id_key st"
      using extract_loop_dedup_review [OF ex] deduplicated_init [of review_id_key]
      unfolding deduplicated_def by blast
    show ?thesis
    proof (cases err)
      case None
      with started Inr ex click_loop2_dedup [OF d] show ?thesis
        by (simp add: run_selenium2_def)
    next
      case (Some e)
      with started Inr ex d show ?thesis by (simp add: run_selenium2_def)
    qed
  qed
qed

lemma run_trustpilot_dedup: "deduplicated trustpilot_key (run_trustpilot lib pages max_pages_arg)"
  unfolding run_trustpilot_def
proof (rule trustpilot_loop_preserves [where P = "deduplicated trustpilot_key"])
  show "deduplicated trustpilot_key st'"
    if "fetch_page lib pages st = (st', go)" "deduplicated trustpilot_key st" for st st' go
  proof (rule fetch_page_preserves [where P = "deduplicated trustpilot_key", OF _ _ _ _ that])
    show "deduplicated trustpilot_key (st\<lparr>request_log := l\<rparr>)"
      if "deduplicated trustpilot_key st" for st :: pilot_state and l
      using that by (simp add: deduplicated_def)
    show "deduplicated trustpilot_key (st\<lparr>total_pages := tp, max_pages := mp\<rparr>)"
      if "deduplicated trustpilot_key st" for st :: pilot_state and tp mp
      using that by (simp add: deduplicated_def)
    show "deduplicated trustpilot_key (st\<lparr>current_page := cp\<rparr>)"
      if "deduplicated trustpilot_key st" for st :: pilot_state and cp
      using that by (simp add: deduplicated_def)
    show "deduplicated trustpilot_key st'"
      if "extract_loop (parse_pilot lib) new_trustpilot_id xs st n = (st', n', err)"
        "deduplicated trustpilot_key st"
      for xs and st st' :: pilot_state and n n' err
      using that unfolding deduplicated_def by (rule extract_loop_dedup_pilot)
  qed
  show "deduplicated trustpilot_key
     \<lparr>all_reviews_data = [], seen_ids = {}, parsed_log = [], request_log = [],
      current_page = 1, total_pages = PInt 1, max_pages = max_pages_arg\<rparr>"
    by (simp add: deduplicated_def first_occurrences_Nil)
qed

section \<open>The example runs evaluated\<close>

lemma parse_review_div_noid:
  "parse_review_div div_noid =
     Inr [(''review_id'', PNone), (''author'', PStr ''Cy''), (''date'', PNone),
          (''rating'', PInt 1), (''body'', PStr ''Late''), (''source_platform'', PStr ''Unknown'')]"
  by (simp add: parse_review_div_def div_noid_def parse_defs)

lemma parse_review_div2_noid: "parse_review_div2 demo_lib div_noid = Inr None"
  by (simp add: parse_review_div2_def div_noid_def opt_str_def)

lemmas loop_defs = extract_loop.simps new_review_id_def new_trustpilot_id_def bind_exn_def
  Let_def step_def init_state_def

lemma run_selenium_demo:
  "run_selenium demo_browser 5 =
     \<lparr>all_reviews_data =
        [[(''review_id'', PStr ''r1''), (''author'', PStr ''Ann''),
          (''date'', PStr ''2024.01.15''), (''rating'', PInt 5),
          (''body'', PStr ''Good flight''), (''source_platform'', PStr ''Google'')],
         [(''review_id'', PStr ''r2''), (''author'', PStr ''Bob''),
          (''date'', PStr ''yesterday''), (''rating'', PNone),
          (''body'', PNone), (''source_platform'', PStr ''Unknown'')]],
      seen_ids = {PStr ''r1'', PStr ''r2''},
      parsed_log = parsed_log (run_selenium demo_browser 5),
      request_log = [0, 1]\<rparr>"
  by (simp add: run_selenium_def demo_browser_def click_ok_def click_and_load_def parse1_def
      parse_review_div_r1 parse_review_div_r2 parse_review_div_noid loop_defs click_loop.simps
      insert_commute)

lemma run_selenium2_demo:
  "run_selenium2 demo_lib demo_browser2 5 =
     \<lparr>all_reviews_data =
        [[(''review_id'', PStr ''r1''), (''author'', PStr ''Ann''),
          (''date'', PStr ''2024-01-15''), (''rating'', PInt 5),
          (''body'', PStr ''Good flight''), (''source_platform'', PStr ''Google'')],
         [(''review_id'', PStr ''r2''), (''author'', PStr ''Bob''),
          (''date'', PStr ''yesterday''), (''rating'', PNone),
          (''body'', PNone), (''source_platform'', PStr ''Unknown'')]],
      seen_ids = {PStr ''r1'', PStr ''r2''},
      parsed_log = parsed_log (run_selenium2 demo_lib demo_browser2 5),
      request_log = [0, 1]\<rparr>"
  by (simp add: run_selenium2_def demo_browser2_def click_ok2_def click_and_load2_def
      get_review_divs_from_source_def
      parse_review_div2_r1 parse_review_div2_r2 parse_review_div2_noid loop_defs click_loop2.simps
      insert_commute)

lemma parse_demo_review:
  "parse_trustpilot_review_data demo_lib (demo_review rid pub) =
     Inr [(''id'', PStr rid), (''author'', PStr ''Dee''), (''consumer_id'', PStr ''c9''),
          (''consumer_reviews_count'', PNone), (''consumer_country'', PNone),
          (''date_published'', PStr (case fromisoformat demo_lib (replace pub ''Z'' ''+00:00'') of
              None \<Rightarrow> pub | Some dt \<Rightarrow> strftime_datetime demo_lib dt)),
          (''date_experience'', PStr ''2024-03-01''), (''rating'', PInt 4),
          (''title'', PNone), (''body'', PStr (''Fine'' @ [CHR 0x0A] @ ''trip'')),
          (''language'', PNone), (''likes'', PInt 0), (''is_verified'', PBool False),
          (''verification_source'', PStr ''Unknown'')]"
proof -
  have exp: "(case fromisoformat demo_lib (replace ''2024-03-01T00:00:00.000Z'' ''Z'' ''+00:00'') of
        None \<Rightarrow> ''2024-03-01T00:00:00.000Z'' | Some dt \<Rightarrow> strftime_date demo_lib dt)
      = ''2024-03-01''"
    by (simp add: parse_defs demo_defs)
  have body: "html_unescape demo_lib (strip (soup_get_text demo_lib
        (replace (replace ''Fine<br>trip'' ''<br />'' [CHR 0x0A]) ''<br>'' [CHR 0x0A])))
      = ''Fine'' @ [CHR 0x0A] @ ''trip''"
    by (simp add: parse_defs demo_lib_def)
  show ?thesis
    by (simp add: parse_trustpilot_review_data_def demo_review_def dict_get_def dict_set_def
        bind_exn_def exp body parse_iso_date_str)
qed

lemma published_t1:
  "(case fromisoformat demo_lib (replace ''2024-03-09T11:22:33.000Z'' ''Z'' ''+00:00'') of
        None \<Rightarrow> ''2024-03-09T11:22:33.000Z'' | Some dt \<Rightarrow> strftime_datetime demo_lib dt)
      = ''2024-03-09 11:22:33''"
  by (simp add: parse_defs demo_defs)

lemma published_t2:
  "(case fromisoformat demo_lib (replace ''last week'' ''Z'' ''+00:00'') of
        None \<Rightarrow> ''last week'' | Some dt \<Rightarrow> strftime_datetime demo_lib dt)
      = ''last week''"
  by (simp add: parse_defs demo_defs)

lemma published_t3:
  "(case fromisoformat demo_lib (replace ''2024-03-10T01:02:03.000Z'' ''Z'' ''+00:00'') of
        None \<Rightarrow> ''2024-03-10T01:02:03.000Z'' | Some dt \<Rightarrow> strftime_datetime demo_lib dt)
      = ''2024-03-10 01:02:03''"
  by (simp add: parse_defs demo_defs)

lemma parse_pilot_demo:
  "parse_pilot demo_lib (demo_review ''t1'' ''2024-03-09T11:22:33.000Z'')
     = Inr (Some (demo_record ''t1'' ''2024-03-09 11:22:33''))"
  "parse_pilot demo_lib (demo_review ''t2'' ''last week'')
     = Inr (Some (demo_record ''t2'' ''last week''))"
  "parse_pilot demo_lib (demo_review ''t3'' ''2024-03-10T01:02:03.000Z'')
     = Inr (Some (demo_record ''t3'' ''2024-03-10 01:02:03''))"
  by (simp_all add: parse_pilot_def parse_demo_review published_t1 published_t2 published_t3
      demo_record_def bind_exn_def)

lemma new_trustpilot_id_demo:
  "new_trustpilot_id (Some (demo_record rid pub)) seen =
     Inr (if PStr rid \<notin> seen then Some (PStr rid) else None)"
  by (simp add: new_trustpilot_id_def demo_record_def bind_exn_def)

lemmas page_defs = fetch_page_def process_page_def reviews_of_page_def
  first_page_limits_def lookup_total_pages_def py_min_def py_ge_def
  demo_page_def dict_get_def bind_exn_def Let_def

lemma fetch_demo_1:
  "fetch_page demo_lib demo_pages
     \<lparr>all_reviews_data = [], seen_ids = {}, parsed_log = [], request_log = [],
      current_page = 1, total_pages = PInt 1, max_pages = 0\<rparr>
   = (\<lparr>all_reviews_data = [demo_record ''t1'' ''2024-03-09 11:22:33'',
                             demo_record ''t2'' ''last week''],
       seen_ids = {PStr ''t2'', PStr ''t1''},
       parsed_log = [demo_record ''t1'' ''2024-03-09 11:22:33'', demo_record ''t2'' ''last week''],
       request_log = [1], current_page = 2, total_pages = PInt 3, max_pages = 0\<rparr>, True)"
  by (simp add: demo_pages_def page_defs parse_pilot_demo new_trustpilot_id_demo)


section \<open>Deduplication of the returned records\<close>

lemma dict_pop_removes: "k \<notin> set (keys (dict_pop k d))"
  using delete_notin_dom [of k d] by (simp add: keys_def dict_pop_def)

lemma dict_pop_keeps_absent: "k \<notin> set (keys d) \<Longrightarrow> k \<notin> set (keys (dict_pop k' d))"
  using dom_delete_subset [of k' d] by (auto simp: keys_def dict_pop_def)

lemma extract_reviews_selenium_demo:
  "extract_reviews_selenium demo_browser 5 =
     Inr [[(''author'', PStr ''Ann''), (''date'', PStr ''2024.01.15''), (''rating'', PInt 5),
           (''body'', PStr ''Good flight''), (''source_platform'', PStr ''Google'')],
          [(''author'', PStr ''Bob''), (''date'', PStr ''yesterday''), (''rating'', PNone),
           (''body'', PNone), (''source_platform'', PStr ''Unknown'')]]"
proof -
  have quit: "finally_quit (chrome_start demo_browser) (driver_quit demo_browser) = Inr ()"
    by (simp add: finally_quit_def demo_browser_def step_def)
  have "all_reviews_data (run_selenium demo_browser 5) =
        [[(''review_id'', PStr ''r1''), (''author'', PStr ''Ann''),
          (''date'', PStr ''2024.01.15''), (''rating'', PInt 5),
          (''body'', PStr ''Good flight''), (''source_platform'', PStr ''Google'')],
         [(''review_id'', PStr ''r2''), (''author'', PStr ''Bob''),
          (''date'', PStr ''yesterday''), (''rating'', PNone),
          (''body'', PNone), (''source_platform'', PStr ''Unknown'')]]"
    by (subst run_selenium_demo) simp
  with quit show ?thesis
    by (simp add: extract_reviews_selenium_def Let_def bind_exn_def dict_pop_def)
qed

lemma extract_reviews_selenium2_demo:
  "extract_reviews_selenium2 demo_lib demo_browser2 5 =
     Inr [[(''author'', PStr ''Ann''), (''date'', PStr ''2024-01-15''), (''rating'', PInt 5),
           (''body'', PStr ''Good flight''), (''source_platform'', PStr ''Google'')],
          [(''author'', PStr ''Bob''), (''date'', PStr ''yesterday''), (''rating'', PNone),
           (''body'', PNone), (''source_platform'', PStr ''Unknown'')]]"
proof -
  have quit: "finally_quit (chrome_start2 demo_browser2) (driver_quit2 demo_browser2) = Inr ()"
    by (simp add: finally_quit_def demo_browser2_def step_def)
  have "all_reviews_data (run_selenium2 demo_lib demo_browser2 5) =
        [[(''review_id'', PStr ''r1''), (''author'', PStr ''Ann''),
          (''date'', PStr ''2024-01-15''), (''rating'', PInt 5),
          (''body'', PStr ''Good flight''), (''source_platform'', PStr ''Google'')],
         [(''review_id'', PStr ''r2''), (''author'', PStr ''Bob''),
          (''date'', PStr ''yesterday''), (''rating'', PNone),
          (''body'', PNone), (''source_platform'', PStr ''Unknown'')]]"
    by (subst run_selenium2_demo) simp
  with quit show ?thesis
    by (simp add: extract_reviews_selenium2_def Let_def bind_exn_def dict_pop_def)
qed

text \<open>
  Claim C9. No record of a returned list has the key used for deduplication:
  \<^verbatim>\<open>review_id\<close> for the two Trustindex scripts, \<^verbatim>\<open>id\<close> and \<^verbatim>\<open>consumer_id\<close> for the Trustpilot
  script.
\<close>

theorem identifier_keys_removed:
  "(\<forall>rs. extract_reviews_selenium env max_loops = Inr rs \<longrightarrow>
       (\<forall>r \<in> set rs. ''review_id'' \<notin> set (keys r)))
   \<and> (\<forall>rs. extract_reviews_selenium2 lib env2 max_loops2 = Inr rs \<longrightarrow>
       (\<forall>r \<in> set rs. ''review_id'' \<notin> set (keys r)))
   \<and> (\<forall>r \<in> set (extract_trustpilot_reviews lib' pages max_pages_arg).
       ''id'' \<notin> set (keys r) \<and> ''consumer_id'' \<notin> set (keys r))"
  unfolding extract_reviews_selenium_def extract_reviews_selenium2_def
    extract_trustpilot_reviews_def
  by (auto simp: Let_def bind_exn_def dict_pop_removes dict_pop_keeps_absent split: sum.splits)

theorem identifier_keys_removed_witness:
  "extract_reviews_selenium demo_browser 5 =
     Inr [[(''author'', PStr ''Ann''), (''date'', PStr ''2024.01.15''), (''rating'', PInt 5),
           (''body'', PStr ''Good flight''), (''source_platform'', PStr ''Google'')],
          [(''author'', PStr ''Bob''), (''date'', PStr ''yesterday''), (''rating'', PNone),
           (''body'', PNone), (''source_platform'', PStr ''Unknown'')]]
   \<and> ''review_id'' \<notin> set (keys [(''author'', PStr ''Bob''), (''date'', PStr ''yesterday''),
           (''rating'', PNone), (''body'', PNone), (''source_platform'', PStr ''Unknown'')])
   \<and> extract_reviews_selenium2 demo_lib demo_browser2 5 =
     Inr [[(''author'', PStr ''Ann''), (''date'', PStr ''2024-01-15''), (''rating'', PInt 5),
           (''body'', PStr ''Good flight''), (''source_platform'', PStr ''Google'')],
          [(''author'', PStr ''Bob''), (''date'', PStr ''yesterday''), (''rating'', PNone),
           (''body'', PNone), (''source_platform'', PStr ''Unknown'')]]
   \<and> ''review_id'' \<notin> set (keys [(''author'', PStr ''Ann''), (''date'', PStr ''2024-01-15''),
           (''rating'', PInt 5), (''body'', PStr ''Good flight''),
           (''source_platform'', PStr ''Google'')])"
proof -
  note inst = identifier_keys_removed [of demo_browser 5 demo_lib demo_browser2 5 demo_lib demo_pages 0]
  from inst extract_reviews_selenium_demo
  have "''review_id'' \<notin> set (keys [(''author'', PStr ''Bob''), (''date'', PStr ''yesterday''),
           (''rating'', PNone), (''body'', PNone), (''source_platform'', PStr ''Unknown'')])"
    by (metis list.set_intros(1,2))
  moreover from inst extract_reviews_selenium2_demo
  have "''review_id'' \<notin> set (keys [(''author'', PStr ''Ann''), (''date'', PStr ''2024-01-15''),
           (''rating'', PInt 5), (''body'', PStr ''Good flight''),
           (''source_platform'', PStr ''Google'')])"
    by (metis list.set_intros(1))
  ultimately show ?thesis
    using extract_reviews_selenium_demo extract_reviews_selenium2_demo by simp
qed


text \<open>
  Claim C1. In every run of each script the accumulated list is deduplicated: it holds
  exactly the first occurrences, in the order they were met, of the parsed records that
  carry an identifier, so no two of its records carry the same identifier and a record
  whose identifier was seen before is never in it. The returned list is this list with the
  identifier keys removed, record by record.
\<close>

theorem returned_records_deduplicated:
  "deduplicated review_id_key (run_selenium env max_loops)
   \<and> distinct (map review_id_key (all_reviews_data (run_selenium env max_loops)))
   \<and> None \<notin> set (map review_id_key (all_reviews_data (run_selenium env max_loops)))
   \<and> (\<forall>rs. extract_reviews_selenium env max_loops = Inr rs \<longrightarrow>
         rs = map (dict_pop ''review_id'') (all_reviews_data (run_selenium env max_loops)))
   \<and> deduplicated review_id_key (run_selenium2 lib env2 max_loops2)
   \<and> distinct (map review_id_key (all_reviews_data (run_selenium2 lib env2 max_loops2)))
   \<and> None \<notin> set (map review_id_key (all_reviews_data (run_selenium2 lib env2 max_loops2)))
   \<and> (\<forall>rs. extract_reviews_selenium2 lib env2 max_loops2 = Inr rs \<longrightarrow>
         rs = map (dict_pop ''review_id'') (all_reviews_data (run_selenium2 lib env2 max_loops2)))
   \<and> deduplicated trustpilot_key (run_trustpilot lib' pages max_pages_arg)
   \<and> distinct (map trustpilot_key (all_reviews_data (run_trustpilot lib' pages max_pages_arg)))
   \<and> None \<notin> set (map trustpilot_key (all_reviews_data (run_trustpilot lib' pages max_pages_arg)))
   \<and> extract_trustpilot_reviews lib' pages max_pages_arg =
        map (\<lambda>review. dict_pop ''consumer_id'' (dict_pop ''id'' review))
          (all_reviews_data (run_trustpilot lib' pages max_pages_arg))"
proof -
  note d1 = run_selenium_dedup [of env max_loops]
  note d2 = run_selenium2_dedup [of lib env2 max_loops2]
  note d3 = run_trustpilot_dedup [of lib' pages max_pages_arg]
  have r1: "\<forall>rs. extract_reviews_selenium env max_loops = Inr rs \<longrightarrow>
         rs = map (dict_pop ''review_id'') (all_reviews_data (run_selenium env max_loops))"
    by (auto simp: extract_reviews_selenium_def Let_def bind_exn_def split: sum.splits)
  have r2: "\<forall>rs. extract_reviews_selenium2 lib env2 max_loops2 = Inr rs \<longrightarrow>
         rs = map (dict_pop ''review_id'') (all_reviews_data (run_selenium2 lib env2 max_loops2))"
    by (auto simp: extract_reviews_selenium2_def Let_def bind_exn_def split: sum.splits)
  have r3: "extract_trustpilot_reviews lib' pages max_pages_arg =
        map (\<lambda>review. dict_pop ''consumer_id'' (dict_pop ''id'' review))
          (all_reviews_data (run_trustpilot lib' pages max_pages_arg))"
    by (simp add: extract_trustpilot_reviews_def)
  show ?thesis
    using d1 d2 d3 deduplicated_distinct [OF d1] deduplicated_distinct [OF d2]
      deduplicated_distinct [OF d3] r1 r2 r3
    by blast
qed

lemma parsed_log_selenium_demo:
  "parsed_log (run_selenium demo_browser 5) =
     [[(''review_id'', PStr ''r1''), (''author'', PStr ''Ann''),
       (''date'', PStr ''2024.01.15''), (''rating'', PInt 5),
       (''body'', PStr ''Good flight''), (''source_platform'', PStr ''Google'')],
      [(''review_id'', PNone), (''author'', PStr ''Cy''), (''date'', PNone),
       (''rating'', PInt 1), (''body'', PStr ''Late''), (''source_platform'', PStr ''Unknown'')],
      [(''review_id'', PStr ''r1''), (''author'', PStr ''Ann''),
       (''date'', PStr ''2024.01.15''), (''rating'', PInt 5),
       (''body'', PStr ''Good flight''), (''source_platform'', PStr ''Google'')],
      [(''review_id'', PNone), (''author'', PStr ''Cy''), (''date'', PNone),
       (''rating'', PInt 1), (''body'', PStr ''Late''), (''source_platform'', PStr ''Unknown'')],
      [(''review_id'', PStr ''r2''), (''author'', PStr ''Bob''),
       (''date'', PStr ''yesterday''), (''rating'', PNone),
       (''body'', PNone), (''source_platform'', PStr ''Unknown'')],
      [(''review_id'', PStr ''r1''), (''author'', PStr ''Ann''),
       (''date'', PStr ''2024.01.15''), (''rating'', PInt 5),
       (''body'', PStr ''Good flight''), (''source_platform'', PStr ''Google'')],
      [(''review_id'', PNone), (''author'', PStr ''Cy''), (''date'', PNone),
       (''rating'', PInt 1), (''body'', PStr ''Late''), (''source_platform'', PStr ''Unknown'')],
      [(''review_id'', PStr ''r2''), (''author'', PStr ''Bob''),
       (''date'', PStr ''yesterday''), (''rating'', PNone),
       (''body'', PNone), (''source_platform'', PStr ''Unknown'')]]"
  by (simp add: run_selenium_def demo_browser_def click_ok_def click_and_load_def parse1_def
      parse_review_div_r1 parse_review_div_r2 parse_review_div_noid loop_defs click_loop.simps)

theorem returned_records_deduplicated_witness:
  "all_reviews_data (run_selenium demo_browser 5) =
     [[(''review_id'', PStr ''r1''), (''author'', PStr ''Ann''),
       (''date'', PStr ''2024.01.15''), (''rating'', PInt 5),
       (''body'', PStr ''Good flight''), (''source_platform'', PStr ''Google'')],
      [(''review_id'', PStr ''r2''), (''author'', PStr ''Bob''),
       (''date'', PStr ''yesterday''), (''rating'', PNone),
       (''body'', PNone), (''source_platform'', PStr ''Unknown'')]]
   \<and> length (parsed_log (run_selenium demo_browser 5)) = 8
   \<and> seen_ids (run_selenium demo_browser 5) = {PStr ''r1'', PStr ''r2''}
   \<and> distinct (map review_id_key
        [[(''review_id'', PStr ''r1''), (''author'', PStr ''Ann''),
          (''date'', PStr ''2024.01.15''), (''rating'', PInt 5),
          (''body'', PStr ''Good flight''), (''source_platform'', PStr ''Google'')],
         [(''review_id'', PStr ''r2''), (''author'', PStr ''Bob''),
          (''date'', PStr ''yesterday''), (''rating'', PNone),
          (''body'', PNone), (''source_platform'', PStr ''Unknown'')]])
   \<and> extract_reviews_selenium demo_browser 5 =
     Inr [[(''author'', PStr ''Ann''), (''date'', PStr ''2024.01.15''), (''rating'', PInt 5),
           (''body'', PStr ''Good flight''), (''source_platform'', PStr ''Google'')],
          [(''author'', PStr ''Bob''), (''date'', PStr ''yesterday''), (''rating'', PNone),
           (''body'', PNone), (''source_platform'', PStr ''Unknown'')]]"
proof -
  have acc: "all_reviews_data (run_selenium demo_browser 5) =
     [[(''review_id'', PStr ''r1''), (''author'', PStr ''Ann''),
       (''date'', PStr ''2024.01.15''), (''rating'', PInt 5),
       (''body'', PStr ''Good flight''), (''source_platform'', PStr ''Google'')],
      [(''review_id'', PStr ''r2''), (''author'', PStr ''Bob''),
       (''date'', PStr ''yesterday''), (''rating'', PNone),
       (''body'', PNone), (''source_platform'', PStr ''Unknown'')]]"
    by (subst run_selenium_demo) simp
  have seen: "seen_ids (run_selenium demo_browser 5) = {PStr ''r1'', PStr ''r2''}"
    by (subst run_selenium_demo) simp
  from returned_records_deduplicated [of demo_browser 5]
  have "distinct (map review_id_key (all_reviews_data (run_selenium demo_browser 5)))"
    by blast
  with acc seen extract_reviews_selenium_demo show ?thesis
    by (simp add: parsed_log_selenium_demo)
qed


section \<open>The requests of a run\<close>

lemma run_trustpilot_log:
  "\<exists>n. 1 \<le> n
     \<and> request_log (run_trustpilot lib pages max_pages_arg) = [1..<Suc n]
     \<and> (\<forall>p. 1 \<le> p \<and> p < n \<longrightarrow> (\<exists>page_data. pages p = NextData page_data))
     \<and> (1 < n \<longrightarrow>
          (\<exists>T. as_int (total_pages (run_trustpilot lib pages max_pages_arg)) = Some T
               \<and> int n \<le> T))"
  using trustpilot_loop_log [of "\<lparr>all_reviews_data = [], seen_ids = {}, parsed_log = [],
        request_log = [], current_page = 1, total_pages = PInt 1,
        max_pages = max_pages_arg\<rparr>" lib pages]
  by (simp add: run_trustpilot_def)


text \<open>
  Claim C6. The page numbers requested in a run are 1, 2, ..., n for some n: in
  increasing order from page 1, each once. Every request before the last one was answered
  with a payload, so a request that fails is the last request of the run: no page is
  asked for again.
\<close>

theorem pages_requested_in_order:
  "\<exists>n. 1 \<le> n
     \<and> request_log (run_trustpilot lib pages max_pages_arg) = [1..<Suc n]
     \<and> sorted_wrt (<) (request_log (run_trustpilot lib pages max_pages_arg))
     \<and> distinct (request_log (run_trustpilot lib pages max_pages_arg))
     \<and> (\<forall>p. 1 \<le> p \<and> p < n \<longrightarrow> (\<exists>page_data. pages p = NextData page_data))"
proof -
  from run_trustpilot_log [of lib pages max_pages_arg] obtain n where
    n: "1 \<le> n" "request_log (run_trustpilot lib pages max_pages_arg) = [1..<Suc n]"
      "\<forall>p. 1 \<le> p \<and> p < n \<longrightarrow> (\<exists>page_data. pages p = NextData page_data)"
    by blast
  have "sorted_wrt (<) [1..<Suc n]" "distinct [1..<Suc n]"
    by (simp_all add: sorted_wrt_upt del: upt_Suc)
  with n show ?thesis
    by (intro exI [of _ n]) (simp del: upt_Suc)
qed


lemma fetch_demo_2:
  "fetch_page demo_lib demo_pages
     \<lparr>all_reviews_data = [demo_record ''t1'' ''2024-03-09 11:22:33'',
                           demo_record ''t2'' ''last week''],
      seen_ids = {PStr ''t2'', PStr ''t1''},
      parsed_log = [demo_record ''t1'' ''2024-03-09 11:22:33'', demo_record ''t2'' ''last week''],
      request_log = [1], current_page = 2, total_pages = PInt 3, max_pages = 0\<rparr>
   = (\<lparr>all_reviews_data = [demo_record ''t1'' ''2024-03-09 11:22:33'',
                             demo_record ''t2'' ''last week'',
                             demo_record ''t3'' ''2024-03-10 01:02:03''],
       seen_ids = {PStr ''t3'', PStr ''t2'', PStr ''t1''},
       parsed_log = [demo_record ''t1'' ''2024-03-09 11:22:33'', demo_record ''t2'' ''last week'',
                     demo_record ''t2'' ''last week'', demo_record ''t3'' ''2024-03-10 01:02:03''],
       request_log = [1, 2], current_page = 3, total_pages = PInt 3, max_pages = 0\<rparr>, True)"
  by (simp add: demo_pages_def page_defs parse_pilot_demo new_trustpilot_id_demo)

lemma fetch_demo_3:
  "fetch_page demo_lib demo_pages
     \<lparr>all_reviews_data = [demo_record ''t1'' ''2024-03-09 11:22:33'',
                             demo_record ''t2'' ''last week'',
                             demo_record ''t3'' ''2024-03-10 01:02:03''],
       seen_ids = {PStr ''t3'', PStr ''t2'', PStr ''t1''},
       parsed_log = [demo_record ''t1'' ''2024-03-09 11:22:33'', demo_record ''t2'' ''last week'',
                     demo_record ''t2'' ''last week'', demo_record ''t3'' ''2024-03-10 01:02:03''],
       request_log = [1, 2], current_page = 3, total_pages = PInt 3, max_pages = 0\<rparr>
   = (\<lparr>all_reviews_data = [demo_record ''t1'' ''2024-03-09 11:22:33'',
                             demo_record ''t2'' ''last week'',
                             demo_record ''t3'' ''2024-03-10 01:02:03''],
       seen_ids = {PStr ''t3'', PStr ''t2'', PStr ''t1''},
       parsed_log = [demo_record ''t1'' ''2024-03-09 11:22:33'', demo_record ''t2'' ''last week'',
                     demo_record ''t2'' ''last week'', demo_record ''t3'' ''2024-03-10 01:02:03''],
       request_log = [1, 2, 3], current_page = 3, total_pages = PInt 3, max_pages = 0\<rparr>, False)"
  by (simp add: demo_pages_def fetch_page_def Let_def)

lemma run_trustpilot_demo:
  "run_trustpilot demo_lib demo_pages 0 =
     \<lparr>all_reviews_data = [demo_record ''t1'' ''2024-03-09 11:22:33'',
                             demo_record ''t2'' ''last week'',
                             demo_record ''t3'' ''2024-03-10 01:02:03''],
       seen_ids = {PStr ''t3'', PStr ''t2'', PStr ''t1''},
       parsed_log = [demo_record ''t1'' ''2024-03-09 11:22:33'', demo_record ''t2'' ''last week'',
                     demo_record ''t2'' ''last week'', demo_record ''t3'' ''2024-03-10 01:02:03''],
       request_log = [1, 2, 3], current_page = 3, total_pages = PInt 3, max_pages = 0\<rparr>"
  unfolding run_trustpilot_def
  by (simp only: trustpilot_loop_go [OF fetch_demo_1] trustpilot_loop_go [OF fetch_demo_2]
      trustpilot_loop_stop [OF fetch_demo_3])

theorem pages_requested_in_order_witness:
  "request_log (run_trustpilot demo_lib demo_pages 0) = [1, 2, 3]
   \<and> demo_pages 3 = RequestFailed
   \<and> (\<exists>page_data. demo_pages 1 = NextData page_data)
   \<and> (\<exists>page_data. demo_pages 2 = NextData page_data)"
proof -
  have log: "request_log (run_trustpilot demo_lib demo_pages 0) = [1, 2, 3]"
    by (simp add: run_trustpilot_demo)
  from pages_requested_in_order [of demo_lib demo_pages 0] obtain n where
    n: "request_log (run_trustpilot demo_lib demo_pages 0) = [1..<Suc n]"
      "\<forall>p. 1 \<le> p \<and> p < n \<longrightarrow> (\<exists>page_data. demo_pages p = NextData page_data)"
    by blast
  from n(1) log have "length [1..<Suc n] = length [1, 2, 3 :: nat]"
    by (simp only:)
  then have "n = 3" by (simp del: upt_Suc)
  with n(2) have "\<exists>page_data. demo_pages 1 = NextData page_data"
    "\<exists>page_data. demo_pages 2 = NextData page_data"
    by simp_all
  moreover have "demo_pages 3 = RequestFailed"
    by (simp add: demo_pages_def)
  ultimately show ?thesis using log by simp
qed















end
